theory Spec2Isabelle
  imports Complex_Main "HOL-Library.Word"
begin

unbundle bit_operations_syntax

section \<open>Bytes, Python errors and the struct module\<close>

text \<open>
  A Python \<open>bytes\<close> value is a list of 8-bit words. Python integers are unbounded and
  are modelled by \<open>int\<close>. An exception is a value of type \<open>py_error\<close>; a computation
  that may raise returns \<open>py_error + 'a\<close>.
\<close>

type_synonym byte = "8 word"
type_synonym bytes = "byte list"
type_synonym path = string

datatype py_error =
    StructError
  | ZeroDivisionError
  | KeyError string
  | NameError string
  | FileNotFoundError path
  | SameFileError path

text \<open>\<open>struct.pack('<I', x)\<close>: four bytes, least significant first; raises
  \<open>struct.error\<close> when \<open>x\<close> is outside \<open>0 .. 2^32 - 1\<close>.\<close>

definition pack_u32_le :: "int \<Rightarrow> py_error + bytes" where
  "pack_u32_le x =
     (if 0 \<le> x \<and> x < 4294967296
      then Inr [word_of_int (x mod 256), word_of_int (x div 256 mod 256),
                word_of_int (x div 65536 mod 256), word_of_int (x div 16777216)]
      else Inl StructError)"

text \<open>\<open>struct.unpack('<I', b)[0]\<close>: raises unless \<open>b\<close> has exactly four bytes.\<close>

definition unpack_u32_le :: "bytes \<Rightarrow> py_error + int" where
  "unpack_u32_le b =
     (case b of
        [b0, b1, b2, b3] \<Rightarrow>
          Inr (uint b0 + 256 * uint b1 + 65536 * uint b2 + 16777216 * uint b3)
      | _ \<Rightarrow> Inl StructError)"

text \<open>\<open>struct.pack("3B", a, b, c)\<close>: one byte each; raises when a value is outside
  \<open>0 .. 255\<close>.\<close>

definition pack_3B :: "int \<Rightarrow> int \<Rightarrow> int \<Rightarrow> py_error + bytes" where
  "pack_3B a b c =
     (if 0 \<le> a \<and> a < 256 \<and> 0 \<le> b \<and> b < 256 \<and> 0 \<le> c \<and> c < 256
      then Inr [word_of_int a, word_of_int b, word_of_int c]
      else Inl StructError)"

text \<open>The slice \<open>data[i:j]\<close> for indices \<open>0 \<le> i \<le> j\<close>, and the slice \<open>data[:n]\<close>
  for any integer \<open>n\<close> (a negative \<open>n\<close> counts from the end).\<close>

definition py_slice :: "nat \<Rightarrow> nat \<Rightarrow> 'a list \<Rightarrow> 'a list" where
  "py_slice i j data = take (j - i) (drop i data)"

definition slice_to :: "'a list \<Rightarrow> int \<Rightarrow> 'a list" where
  "slice_to data n =
     (if 0 \<le> n then take (nat n) data else take (length data - nat (- n)) data)"

section \<open>ASTCTools: sizes and padding\<close>

text \<open>\<open>ASTCTools.calculate_astc_size\<close>. Python's \<open>//\<close> is floor division, as \<open>div\<close>
  on \<open>int\<close> is; a zero block dimension raises.\<close>

definition calculate_astc_size :: "int \<Rightarrow> int \<Rightarrow> int \<Rightarrow> int \<Rightarrow> py_error + int" where
  "calculate_astc_size width height block_w block_h =
     (if block_w = 0 then Inl ZeroDivisionError
      else let blocks_x = (width + block_w - 1) div block_w in
        if block_h = 0 then Inl ZeroDivisionError
        else let blocks_y = (height + block_h - 1) div block_h in
          Inr (blocks_x * blocks_y * 16))"

text \<open>\<open>ASTCTools.pad_to_size\<close>. (The parameter \<open>target_size\<close> is written \<open>tgt_size\<close>:
  the word library already has a constant of that name.)\<close>

definition pad_to_size :: "bytes \<Rightarrow> int \<Rightarrow> bytes" where
  "pad_to_size data tgt_size =
     (let current_size = int (length data) in
      if current_size < tgt_size then
        (let padding = replicate (nat (tgt_size - current_size)) (0 :: byte)
         in data @ padding)
      else if current_size > tgt_size then slice_to data tgt_size
      else data)"

text \<open>Sequencing of computations that may raise: the first exception wins.\<close>

definition bind_err :: "py_error + 'a \<Rightarrow> ('a \<Rightarrow> py_error + 'b) \<Rightarrow> py_error + 'b" where
  "bind_err m k = (case m of Inl e \<Rightarrow> Inl e | Inr x \<Rightarrow> k x)"

text \<open>A bytes literal such as \<open>b'DDS '\<close>, and \<open>str(n)\<close> for an integer.\<close>

definition ascii :: "string \<Rightarrow> bytes" where
  "ascii s = map of_char s"

fun str_nat :: "nat \<Rightarrow> string" where
  "str_nat n =
     (if n < 10 then [char_of (48 + n)] else str_nat (n div 10) @ [char_of (48 + n mod 10)])"

definition str_int :: "int \<Rightarrow> string" where
  "str_int i = (if i < 0 then CHR ''-'' # str_nat (nat (- i)) else str_nat (nat i))"

section \<open>Files\<close>

text \<open>
  The file system maps a path to the content of the regular file there. Directories
  are not modelled (\<open>os.makedirs\<close> changes nothing, and \<open>os.path.exists\<close> and
  \<open>os.path.isfile\<close> coincide), and a path is its own identity: two different strings
  are two different files.
\<close>

type_synonym fs = "path \<rightharpoonup> bytes"

definition read_bytes :: "fs \<Rightarrow> path \<Rightarrow> py_error + bytes" where
  "read_bytes f p = (case f p of None \<Rightarrow> Inl (FileNotFoundError p) | Some d \<Rightarrow> Inr d)"

definition getsize :: "fs \<Rightarrow> path \<Rightarrow> py_error + int" where
  "getsize f p =
     (case f p of None \<Rightarrow> Inl (FileNotFoundError p) | Some d \<Rightarrow> Inr (int (length d)))"

definition exists :: "fs \<Rightarrow> path \<Rightarrow> bool" where
  "exists f p = (f p \<noteq> None)"

definition unlink :: "fs \<Rightarrow> path \<Rightarrow> fs" where
  "unlink f p = f(p := None)"

text \<open>\<open>shutil.copy2\<close>: raises when source and destination are the same file or the
  source is missing.\<close>

definition copy2 :: "fs \<Rightarrow> path \<Rightarrow> path \<Rightarrow> py_error + fs" where
  "copy2 f src dst =
     (case f src of
        None \<Rightarrow> Inl (FileNotFoundError src)
      | Some d \<Rightarrow> if src = dst then Inl (SameFileError src) else Inr (f(dst \<mapsto> d)))"

section \<open>ASTCTools: the synthetic wrapper\<close>

text \<open>The header built in \<open>ASTCTools.wrap_raw_astc\<close>: \<open>magic + block_dims + image_dims\<close>.\<close>

definition dim3 :: "int \<Rightarrow> py_error + bytes" where
  "dim3 x = bind_err (pack_u32_le x) (\<lambda>b. Inr (take 3 b))"

definition astc_header :: "int \<Rightarrow> int \<Rightarrow> int \<Rightarrow> int \<Rightarrow> py_error + bytes" where
  "astc_header width height block_width block_height =
     bind_err (pack_u32_le 0x5CA1AB13) (\<lambda>magic.
     bind_err (pack_3B block_width block_height 1) (\<lambda>block_dims.
     bind_err (dim3 width) (\<lambda>dw.
     bind_err (dim3 height) (\<lambda>dh.
     bind_err (dim3 1) (\<lambda>dd.
       let image_dims = dw @ dh @ dd in
       Inr (magic @ block_dims @ image_dims))))))"

text \<open>\<open>ASTCTools.wrap_raw_astc\<close>: writes header and raw data to \<open>wrapped_path\<close>; any
  exception makes it return \<open>False\<close> with nothing written.\<close>

definition wrap_raw_astc ::
  "fs \<Rightarrow> path \<Rightarrow> path \<Rightarrow> int \<Rightarrow> int \<Rightarrow> int \<Rightarrow> int \<Rightarrow> bool \<times> fs" where
  "wrap_raw_astc f raw_path wrapped_path width height block_width block_height =
     (case bind_err (astc_header width height block_width block_height) (\<lambda>header.
           bind_err (read_bytes f raw_path) (\<lambda>data.
             Inr (f(wrapped_path \<mapsto> header @ data)))) of
        Inl e \<Rightarrow> (False, f)
      | Inr f' \<Rightarrow> (True, f'))"

text \<open>The unwrapping step of \<open>ASTCTools.encode_texture\<close>: the codec's 16-byte header
  is dropped when the file is longer than 16 bytes and starts with the magic.\<close>

definition strip_astc_header :: "bytes \<Rightarrow> bytes" where
  "strip_astc_header astc_data =
     (if length astc_data > 16 \<and> take 4 astc_data = [0x13, 0xAB, 0xA1, 0x5C]
      then drop 16 astc_data else astc_data)"

section \<open>DDSHandler and the descriptor size field\<close>

record dds_info =
  dds_width :: int
  dds_height :: int
  mipmaps :: int
  format :: string
  dds_file_size :: int
  format_code :: "int option"
  is_problematic :: bool

definition DXGI_FORMAT :: "int \<Rightarrow> string option" where
  "DXGI_FORMAT = map_of
     [(0, ''DXGI_FORMAT_UNKNOWN''), (26, ''DXGI_FORMAT_R11G11B10_FLOAT''),
      (61, ''DXGI_FORMAT_R8_UNORM''), (71, ''DXGI_FORMAT_BC1_UNORM''),
      (77, ''DXGI_FORMAT_BC3_UNORM''), (80, ''DXGI_FORMAT_BC4_UNORM''),
      (83, ''DXGI_FORMAT_BC5_UNORM''), (91, ''DXGI_FORMAT_B8G8R8A8_UNORM_SRGB''),
      (87, ''DXGI_FORMAT_B8G8R8A8_TYPELESS'')]"

text \<open>The format name and code chosen from the fourCC, the extended header (the 20
  bytes read after the 128th, when the fourCC is \<open>DX10\<close>) and the pixel-format flags.\<close>

definition dds_format ::
  "bytes \<Rightarrow> bytes \<Rightarrow> int \<Rightarrow> py_error + string \<times> int option \<times> bool" where
  "dds_format four_cc extended_header pixel_format_flags =
     (if four_cc = ascii ''DXT1'' then Inr (''BC1/DXT1'', None, False)
      else if four_cc = ascii ''DXT3'' then Inr (''BC2/DXT3'', None, False)
      else if four_cc = ascii ''DXT5'' then Inr (''BC3/DXT5'', None, False)
      else if four_cc = ascii ''DX10'' then
        (if length extended_header \<ge> 20 then
           bind_err (unpack_u32_le (py_slice 0 4 extended_header)) (\<lambda>code.
             Inr (case DXGI_FORMAT code of
                    Some name \<Rightarrow> name
                  | None \<Rightarrow> ''DXGI Format '' @ str_int code,
                  Some code, code \<in> set [26, 72, 78, 87]))
         else Inr (''Unknown'', None, False))
      else if pixel_format_flags AND 0x40 \<noteq> 0 then Inr (''RGB'', None, False)
      else Inr (''Unknown'', None, False))"

text \<open>\<open>DDSHandler.get_dds_info\<close>: \<open>None\<close> for a missing file, a wrong signature, a
  short header or any exception.\<close>

definition get_dds_info :: "fs \<Rightarrow> path \<Rightarrow> dds_info option" where
  "get_dds_info f file_path =
     (case f file_path of
        None \<Rightarrow> None
      | Some content \<Rightarrow>
          let signature = take 4 content in
          if signature \<noteq> ascii ''DDS '' then None
          else let header = take 124 (drop 4 content) in
            if length header < 124 then None
            else
              (case bind_err (unpack_u32_le (py_slice 8 12 header)) (\<lambda>height.
                    bind_err (unpack_u32_le (py_slice 12 16 header)) (\<lambda>width.
                    bind_err (unpack_u32_le (py_slice 24 28 header)) (\<lambda>mipmap_count.
                    bind_err (unpack_u32_le (py_slice 76 80 header)) (\<lambda>pixel_format_flags.
                      let four_cc = py_slice 80 84 header;
                          extended_header = take 20 (drop 128 content) in
                      bind_err (dds_format four_cc extended_header pixel_format_flags)
                        (\<lambda>(format_name, code, problematic).
                          Inr \<lparr>dds_width = width, dds_height = height,
                               mipmaps = mipmap_count, format = format_name,
                               dds_file_size = int (length content),
                               format_code = code, is_problematic = problematic\<rparr>))))) of
                 Inl e \<Rightarrow> None
               | Inr info \<Rightarrow> Some info))"

text \<open>\<open>TextureReplacer.hex_edit_file_size\<close>: the file is rewritten only after the new
  content has been built; an exception (a missing file, a size that does not fit 32
  bits) returns \<open>False\<close>.\<close>

definition hex_edit_file_size :: "fs \<Rightarrow> path \<Rightarrow> int \<Rightarrow> bool \<times> fs" where
  "hex_edit_file_size f file_path new_size =
     (case read_bytes f file_path of
        Inl e \<Rightarrow> (False, f)
      | Inr data \<Rightarrow>
          if length data \<ge> 248 then
            (case pack_u32_le new_size of
               Inl e \<Rightarrow> (False, f)
             | Inr file_size_bytes \<Rightarrow>
                 (True, f(file_path \<mapsto> take 244 data @ file_size_bytes @ drop 248 data)))
          else (False, f))"

text \<open>The little-endian 32-bit value at offset \<open>i\<close> of a byte string, written out:
  the reading the claims about the header and the size field refer to.\<close>

definition le32_at :: "bytes \<Rightarrow> nat \<Rightarrow> int" where
  "le32_at b i =
     uint (b ! i) + 256 * uint (b ! (i + 1)) + 65536 * uint (b ! (i + 2))
       + 16777216 * uint (b ! (i + 3))"

section \<open>Paths\<close>

text \<open>\<open>os.path.join\<close>, \<open>os.path.basename\<close>, \<open>Path.stem\<close> and the root part of
  \<open>os.path.splitext\<close>, for paths with \<open>/\<close> as separator. \<open>Path.__truediv__\<close> is
  modelled by \<open>path_join\<close> too. \<open>str.endswith\<close> is \<open>endswith\<close>, and \<open>str.lower\<close> is
  \<open>lower\<close>, which maps the letters \<open>A\<close> to \<open>Z\<close> to lower case and leaves every other
  character.\<close>

definition path_join :: "path \<Rightarrow> path \<Rightarrow> path" where
  "path_join a b =
     (if b \<noteq> [] \<and> hd b = CHR ''/'' then b
      else if a = [] \<or> last a = CHR ''/'' then a @ b
      else a @ ''/'' @ b)"

definition basename :: "path \<Rightarrow> string" where
  "basename p = rev (takeWhile (\<lambda>c. c \<noteq> CHR ''/'') (rev p))"

definition rfind_dot :: "string \<Rightarrow> nat option" where
  "rfind_dot name =
     (if CHR ''.'' \<in> set name
      then Some (length name - 1 - length (takeWhile (\<lambda>c. c \<noteq> CHR ''.'') (rev name)))
      else None)"

definition stem :: "path \<Rightarrow> string" where
  "stem p =
     (let name = basename p in
      case rfind_dot name of
        None \<Rightarrow> name
      | Some i \<Rightarrow> if 0 < i \<and> i < length name - 1 then take i name else name)"

definition splitext_root :: "string \<Rightarrow> string" where
  "splitext_root name =
     (case rfind_dot name of
        None \<Rightarrow> name
      | Some i \<Rightarrow> if \<exists>c \<in> set (take i name). c \<noteq> CHR ''.'' then take i name else name)"

definition endswith :: "string \<Rightarrow> string \<Rightarrow> bool" where
  "endswith s suffix =
     (length suffix \<le> length s \<and> drop (length s - length suffix) s = suffix)"

definition lower_char :: "char \<Rightarrow> char" where
  "lower_char c =
     (if 65 \<le> (of_char c :: nat) \<and> (of_char c :: nat) \<le> 90
      then char_of ((of_char c :: nat) + 32) else c)"

definition lower :: "string \<Rightarrow> string" where
  "lower s = map lower_char s"

section \<open>The world: files, the decode cache and external programs\<close>

text \<open>
  The entry \<open>DECODE_CACHE[key]\<close>, an entry of the texture mapping, and the module-level
  dictionary \<open>DECODE_CACHE\<close> itself. The mapping is the parsed mapping file, a list of
  key and value pairs with distinct keys; its values are taken to be well formed
  (both \<open>width\<close> and \<open>height\<close> present).
\<close>

record decode_config =
  cfg_width :: int
  cfg_height :: int
  cfg_block_w :: int
  cfg_block_h :: int
  cfg_original_size :: int

record tex_info =
  tex_width :: int
  tex_height :: int

type_synonym texture_mapping = "(string \<times> tex_info) list"

text \<open>
  An external program is launched through \<open>run_hidden_command\<close>. What it does is not
  known: it is a parameter. A launch ends with an exit code, with a timeout or with a
  failure to start, and leaves something (or nothing) at the command's output path;
  an external program is taken to touch no other file. The other parameters of the
  environment: \<open>mktemp\<close> names temporary files and directories; \<open>resize_to_png\<close> is
  what the imaging library makes of a source file (converted to RGBA, resized to the
  target dimensions, saved as PNG; \<open>None\<close> when it raises); \<open>texconv_exists\<close> says
  whether the converter found by \<open>get_tool_path\<close> exists; \<open>astcenc_path\<close> is what
  \<open>TextureLoader.get_astcenc_path\<close> returns; \<open>MAPPING_FILE\<close> is the parsed mapping file,
  \<open>None\<close> when it does not exist.
\<close>

datatype proc_outcome = Exited int | TimeoutExpired | LaunchFailed

datatype command =
    AstcDecode path path
  | AstcEncode path path int int string
  | TexconvEncode bytes path

fun output_of :: "command \<Rightarrow> path" where
  "output_of (AstcDecode input out) = out"
| "output_of (AstcEncode input out block_w block_h quality) = out"
| "output_of (TexconvEncode png out) = out"

record env =
  mktemp :: "fs \<Rightarrow> path"
  program :: "command \<Rightarrow> fs \<Rightarrow> proc_outcome \<times> bytes option"
  resize_to_png :: "bytes \<Rightarrow> int \<Rightarrow> int \<Rightarrow> bytes option"
  texconv_exists :: bool
  tempdir :: path
  pid :: nat
  astcenc_path :: path
  MAPPING_FILE :: "texture_mapping option"

record world =
  files :: fs
  DECODE_CACHE :: "string \<rightharpoonup> decode_config"
  launched :: "command list"

text \<open>\<open>run_hidden_command\<close>: a timeout or a failure to start is turned into the return
  code \<open>-1\<close>; nothing is raised. Every launch is recorded in \<open>launched\<close>.\<close>

definition returncode :: "proc_outcome \<Rightarrow> int" where
  "returncode r = (case r of Exited rc \<Rightarrow> rc | TimeoutExpired \<Rightarrow> - 1 | LaunchFailed \<Rightarrow> - 1)"

definition run_hidden_command :: "env \<Rightarrow> command \<Rightarrow> world \<Rightarrow> int \<times> world" where
  "run_hidden_command e cmd w =
     (let (outcome, out) = program e cmd (files w) in
      (returncode outcome,
       w\<lparr>files := (files w)(output_of cmd := out), launched := launched w @ [cmd]\<rparr>))"

text \<open>\<open>tempfile.NamedTemporaryFile(suffix='.astc', delete=False)\<close>: an empty file under
  the name the system hands out.\<close>

definition named_temporary_file :: "env \<Rightarrow> world \<Rightarrow> path \<times> world" where
  "named_temporary_file e w =
     (let p = mktemp e (files w) in (p, w\<lparr>files := (files w)(p \<mapsto> [])\<rparr>))"

definition unlink_if_exists :: "path \<Rightarrow> world \<Rightarrow> world" where
  "unlink_if_exists p w = (if exists (files w) p then w\<lparr>files := unlink (files w) p\<rparr> else w)"

section \<open>ASTCTools: resolving the parameters of a headerless texture\<close>

text \<open>\<open>ASTCTools.find_texture_info\<close>: the exact name first, then each suffix in order.\<close>

definition suffixes :: "string list" where
  "suffixes = [''_d'', ''_n'', ''_s'', ''_e'', ''_a'', ''_r'', ''_m'', ''_h'']"

fun find_by_suffix :: "string \<Rightarrow> texture_mapping \<Rightarrow> string list \<Rightarrow> tex_info option" where
  "find_by_suffix texture_name mapping [] = None"
| "find_by_suffix texture_name mapping (suffix # rest) =
     (if endswith texture_name suffix then
        (let base_name = slice_to texture_name (- int (length suffix)) in
         case map_of mapping base_name of
           Some info \<Rightarrow> Some info
         | None \<Rightarrow> find_by_suffix texture_name mapping rest)
      else find_by_suffix texture_name mapping rest)"

definition find_texture_info :: "string \<Rightarrow> texture_mapping \<Rightarrow> tex_info option" where
  "find_texture_info texture_name mapping =
     (case map_of mapping texture_name of
        Some info \<Rightarrow> Some info
      | None \<Rightarrow> find_by_suffix texture_name mapping suffixes)"

text \<open>
  \<open>ASTCTools.decode_with_config\<close>. The body of the \<open>try\<close> is \<open>decode_attempt\<close>; the
  \<open>except\<close> clause removes the output file and gives \<open>False\<close>; the \<open>finally\<close> clause
  removes the temporary file. \<open>cache_key\<close> is \<open>None\<close> or a string, and only a
  non-empty string is true.
\<close>

definition decode_attempt ::
  "env \<Rightarrow> path \<Rightarrow> path \<Rightarrow> path \<Rightarrow> int \<Rightarrow> int \<Rightarrow> int \<Rightarrow> int \<Rightarrow> string option \<Rightarrow> world
     \<Rightarrow> bool \<times> world" where
  "decode_attempt e temp_astc raw_file output_file width height block_w block_h cache_key w =
     (let (wrapped, f) = wrap_raw_astc (files w) raw_file temp_astc width height block_w block_h in
      if \<not> wrapped then (False, w)
      else
        let (rc, w') = run_hidden_command e (AstcDecode temp_astc output_file) (w\<lparr>files := f\<rparr>) in
        if rc = 0 \<and> exists (files w') output_file then
          (case getsize (files w') output_file of
             Inl err \<Rightarrow> (False, unlink_if_exists output_file w')
           | Inr file_size \<Rightarrow>
               if file_size > 1000 then
                 (case cache_key of
                    None \<Rightarrow> (True, w')
                  | Some key \<Rightarrow>
                      if key = [] then (True, w')
                      else
                        (case getsize (files w') raw_file of
                           Inl err \<Rightarrow> (False, unlink_if_exists output_file w')
                         | Inr raw_size \<Rightarrow>
                             (True, w'\<lparr>DECODE_CACHE := (DECODE_CACHE w')(key \<mapsto>
                                \<lparr>cfg_width = width, cfg_height = height,
                                 cfg_block_w = block_w, cfg_block_h = block_h,
                                 cfg_original_size = raw_size\<rparr>)\<rparr>)))
               else (False, w'\<lparr>files := unlink (files w') output_file\<rparr>))
        else (False, unlink_if_exists output_file w'))"

definition decode_with_config ::
  "env \<Rightarrow> path \<Rightarrow> path \<Rightarrow> int \<Rightarrow> int \<Rightarrow> int \<Rightarrow> int \<Rightarrow> string option \<Rightarrow> world
     \<Rightarrow> bool \<times> world" where
  "decode_with_config e raw_file output_file width height block_w block_h cache_key w =
     (let (temp_astc, w1) = named_temporary_file e w;
          (result, w2) = decode_attempt e temp_astc raw_file output_file
                           width height block_w block_h cache_key w1
      in (result, unlink_if_exists temp_astc w2))"

definition get_common_block_sizes :: "(int \<times> int) list" where
  "get_common_block_sizes =
     [(4, 4), (8, 8), (6, 6), (5, 5), (10, 10), (12, 12), (5, 4), (6, 5), (8, 5),
      (8, 6), (10, 5), (10, 6), (10, 8)]"

text \<open>\<open>ASTCTools.decode_with_mapping\<close>: the \<open>for\<close> loop over the block sizes returns at
  the first candidate that \<open>decode_with_config\<close> accepts.\<close>

fun decode_with_mapping_loop ::
  "env \<Rightarrow> path \<Rightarrow> path \<Rightarrow> int \<Rightarrow> int \<Rightarrow> string \<Rightarrow> (int \<times> int) list \<Rightarrow> world
     \<Rightarrow> bool \<times> world" where
  "decode_with_mapping_loop e texture_file output_file pcvr_width pcvr_height texture_name [] w =
     (False, w)"
| "decode_with_mapping_loop e texture_file output_file pcvr_width pcvr_height texture_name
       ((block_w, block_h) # rest) w =
     (let (accepted, w') = decode_with_config e texture_file output_file
                             pcvr_width pcvr_height block_w block_h (Some texture_name) w
      in if accepted then (True, w')
         else decode_with_mapping_loop e texture_file output_file pcvr_width pcvr_height
                texture_name rest w')"

definition decode_with_mapping ::
  "env \<Rightarrow> path \<Rightarrow> path \<Rightarrow> texture_mapping \<Rightarrow> world \<Rightarrow> bool \<times> world" where
  "decode_with_mapping e texture_file output_path mapping w =
     (let texture_name = stem texture_file in
      case find_texture_info texture_name mapping of
        None \<Rightarrow> (False, w)
      | Some texture_info \<Rightarrow>
          let pcvr_width = tex_width texture_info;
              pcvr_height = tex_height texture_info;
              output_file = path_join output_path (stem texture_file @ ''.png'')
          in decode_with_mapping_loop e texture_file output_file pcvr_width pcvr_height
               texture_name get_common_block_sizes w)"

text \<open>\<open>ASTCTools.brute_force_decode\<close>. \<open>texture_file.stat()\<close> raises when the file is
  missing, and nothing in this function catches it.\<close>

definition configurations :: "(int \<times> int \<times> int \<times> int \<times> string) list" where
  "configurations =
     [(2048, 1024, 8, 8, ''2Kx1K_8x8''), (2048, 1024, 6, 6, ''2Kx1K_6x6''),
      (2048, 1024, 4, 4, ''2Kx1K_4x4''), (1024, 512, 8, 8, ''1Kx512_8x8''),
      (1024, 512, 6, 6, ''1Kx512_6x6''), (1024, 512, 4, 4, ''1Kx512_4x4''),
      (2048, 2048, 8, 8, ''2K_square_8x8''), (1024, 1024, 8, 8, ''1K_square_8x8'')]"

fun brute_force_loop ::
  "env \<Rightarrow> path \<Rightarrow> path \<Rightarrow> int \<Rightarrow> (int \<times> int \<times> int \<times> int \<times> string) list \<Rightarrow> world
     \<Rightarrow> (py_error + bool) \<times> world" where
  "brute_force_loop e texture_file output_path file_size [] w = (Inr False, w)"
| "brute_force_loop e texture_file output_path file_size
       ((width, height, block_w, block_h, desc) # rest) w =
     (case calculate_astc_size width height block_w block_h of
        Inl err \<Rightarrow> (Inl err, w)
      | Inr expected_size \<Rightarrow>
          if \<bar>expected_size - file_size\<bar> > 100
          then brute_force_loop e texture_file output_path file_size rest w
          else
            let output_file =
                  path_join output_path (stem texture_file @ ''_BF_'' @ desc @ ''.png'');
                (accepted, w') = decode_with_config e texture_file output_file
                                   width height block_w block_h (Some (stem texture_file)) w
            in if accepted then (Inr True, w')
               else brute_force_loop e texture_file output_path file_size rest w')"

definition brute_force_decode ::
  "env \<Rightarrow> path \<Rightarrow> path \<Rightarrow> world \<Rightarrow> (py_error + bool) \<times> world" where
  "brute_force_decode e texture_file output_path w =
     (case getsize (files w) texture_file of
        Inl err \<Rightarrow> (Inl err, w)
      | Inr file_size \<Rightarrow> brute_force_loop e texture_file output_path file_size configurations w)"

section \<open>ASTCTools: encoding\<close>

text \<open>
  \<open>ASTCTools.encode_texture\<close>. \<open>encode_attempt\<close> is the body of the \<open>try\<close>; every
  exception gives \<open>False\<close>; the \<open>finally\<close> clause removes the temporary file.
  \<open>tgt_size\<close> is \<open>None\<close> or an integer, and only a non-zero integer is true. The
  expected size is computed (and may raise) but not used.
\<close>

definition encode_attempt ::
  "env \<Rightarrow> path \<Rightarrow> path \<Rightarrow> path \<Rightarrow> int \<Rightarrow> int \<Rightarrow> int \<Rightarrow> int \<Rightarrow> string \<Rightarrow> int option \<Rightarrow> world
     \<Rightarrow> bool \<times> world" where
  "encode_attempt e temp_astc input_png output_file width height block_w block_h quality
       tgt_size w =
     (let (rc, w') = run_hidden_command e
                       (AstcEncode input_png temp_astc block_w block_h quality) w in
      if rc \<noteq> 0 then (False, w')
      else
        (case read_bytes (files w') temp_astc of
           Inl err \<Rightarrow> (False, w')
         | Inr astc_data \<Rightarrow>
             let raw_data = strip_astc_header astc_data in
             (case (case tgt_size of
                      None \<Rightarrow> Inr raw_data
                    | Some t \<Rightarrow>
                        if t = 0 then Inr raw_data
                        else bind_err (calculate_astc_size width height block_w block_h)
                               (\<lambda>expected_size.
                                  Inr (if int (length raw_data) \<noteq> t
                                       then pad_to_size raw_data t else raw_data))) of
                Inl err \<Rightarrow> (False, w')
              | Inr raw_data' \<Rightarrow>
                  (True, w'\<lparr>files := (files w')(output_file \<mapsto> raw_data')\<rparr>))))"

definition encode_texture ::
  "env \<Rightarrow> path \<Rightarrow> path \<Rightarrow> int \<Rightarrow> int \<Rightarrow> int \<Rightarrow> int \<Rightarrow> string \<Rightarrow> int option \<Rightarrow> world
     \<Rightarrow> bool \<times> world" where
  "encode_texture e input_png output_file width height block_w block_h quality tgt_size w =
     (let (temp_astc, w1) = named_temporary_file e w;
          (result, w2) = encode_attempt e temp_astc input_png output_file
                           width height block_w block_h quality tgt_size w1
      in (result, unlink_if_exists temp_astc w2))"

definition encode_with_cache ::
  "env \<Rightarrow> path \<Rightarrow> path \<Rightarrow> string \<Rightarrow> string \<Rightarrow> world \<Rightarrow> bool \<times> world" where
  "encode_with_cache e input_png output_file texture_name quality w =
     (case DECODE_CACHE w texture_name of
        None \<Rightarrow> (False, w)
      | Some config \<Rightarrow>
          encode_texture e input_png output_file (cfg_width config) (cfg_height config)
            (cfg_block_w config) (cfg_block_h config) quality
            (Some (cfg_original_size config)) w)"

section \<open>TextureReplacer\<close>

text \<open>
  A result message: a fixed text, or a prefix followed by \<open>str(e)\<close> of the exception
  that was caught.
\<close>

datatype message = Text string | ErrorText string py_error

text \<open>
  \<open>TextureReplacer.replace_quest_texture\<close>. The names \<open>dest_textures_folder\<close> and
  \<open>dest_corresponding_folder\<close> are read but bound nowhere (they are no parameters, no
  locals and no module globals): reading one raises \<open>NameError\<close>. The statements after
  each read are modelled as written, as functions of the value the read would give.
  State changes made before an exception stay.
\<close>

definition unbound_name :: "string \<Rightarrow> py_error + path" where
  "unbound_name n = Inl (NameError n)"

definition quest_encode ::
  "env \<Rightarrow> path \<Rightarrow> path \<Rightarrow> string \<Rightarrow> int \<Rightarrow> world \<Rightarrow> bool \<times> world" where
  "quest_encode e replacement_texture_path temp_output texture_name_no_ext original_size w =
     (let mapping = (case MAPPING_FILE e of None \<Rightarrow> [] | Some m \<Rightarrow> m) in
      if DECODE_CACHE w texture_name_no_ext \<noteq> None then
        encode_with_cache e replacement_texture_path temp_output texture_name_no_ext ''medium'' w
      else if mapping \<noteq> [] then
        (case map_of mapping texture_name_no_ext of
           Some info \<Rightarrow>
             encode_texture e replacement_texture_path temp_output
               (tex_width info) (tex_height info) 8 8 ''medium'' (Some original_size) w
         | None \<Rightarrow> (False, w))
      else (False, w))"

definition quest_stage ::
  "path \<Rightarrow> path \<Rightarrow> path \<Rightarrow> string \<Rightarrow> path \<Rightarrow> fs \<Rightarrow> (py_error + bool \<times> message) \<times> fs" where
  "quest_stage output_folder input_textures_folder input_corresponding_folder texture_name
       temp_output f =
     (case unbound_name ''dest_textures_folder'' of
        Inl err \<Rightarrow> (Inl err, f)
      | Inr dest_textures_folder \<Rightarrow>
          let dest_texture_path = path_join dest_textures_folder texture_name in
          (case copy2 f temp_output dest_texture_path of
             Inl err \<Rightarrow> (Inl err, f)
           | Inr f2 \<Rightarrow>
               let input_texture_path = path_join input_textures_folder texture_name in
               (case copy2 f2 temp_output input_texture_path of
                  Inl err \<Rightarrow> (Inl err, f2)
                | Inr f3 \<Rightarrow>
                    (case getsize f3 temp_output of
                       Inl err \<Rightarrow> (Inl err, f3)
                     | Inr final_size \<Rightarrow>
                         (case unbound_name ''dest_corresponding_folder'' of
                            Inl err \<Rightarrow> (Inl err, f3)
                          | Inr dest_corresponding_folder \<Rightarrow>
                              let dest_corresponding_path =
                                    path_join dest_corresponding_folder texture_name;
                                  f4 = (if exists f3 dest_corresponding_path
                                        then snd (hex_edit_file_size f3 dest_corresponding_path
                                                    final_size)
                                        else f3);
                                  output_corresponding_file =
                                    path_join (path_join output_folder ''e2ef0854d0cd69b8'')
                                      texture_name;
                                  input_corresponding_path =
                                    path_join input_corresponding_folder texture_name
                              in
                              (case (if exists f4 output_corresponding_file
                                     then bind_err (copy2 f4 output_corresponding_file
                                                      input_corresponding_path)
                                            (\<lambda>f5. Inr (snd (hex_edit_file_size f5
                                                               input_corresponding_path
                                                               final_size)))
                                     else Inr f4) of
                                 Inl err \<Rightarrow> (Inl err, f4)
                               | Inr f6 \<Rightarrow>
                                   (Inr (True, Text (''Quest texture replaced. Size updated to ''
                                                      @ str_int final_size @ '' bytes.'')),
                                    unlink f6 temp_output)))))))"

definition replace_quest_body ::
  "env \<Rightarrow> path \<Rightarrow> path \<Rightarrow> path \<Rightarrow> path \<Rightarrow> world \<Rightarrow> (py_error + bool \<times> message) \<times> world" where
  "replace_quest_body e output_folder quest_input_folder original_texture_path
       replacement_texture_path w =
     (let input_textures_folder = path_join quest_input_folder ''489b7b69cb19e0e9'';
          input_corresponding_folder = path_join quest_input_folder ''e2ef0854d0cd69b8'';
          texture_name = basename original_texture_path
      in
      case getsize (files w) original_texture_path of
        Inl err \<Rightarrow> (Inl err, w)
      | Inr original_size \<Rightarrow>
          if astcenc_path e = [] then (Inr (False, Text ''astcenc not found''), w)
          else
            let temp_output = path_join (tempdir e) (''encoded_'' @ texture_name);
                texture_name_no_ext = splitext_root texture_name;
                (success, w1) = quest_encode e replacement_texture_path temp_output
                                  texture_name_no_ext original_size w
            in
            if \<not> success then (Inr (False, Text ''Failed to encode/find texture info''), w1)
            else
              let (result, f) = quest_stage output_folder input_textures_folder
                                  input_corresponding_folder texture_name temp_output (files w1)
              in (result, w1\<lparr>files := f\<rparr>))"

definition replace_quest_texture ::
  "env \<Rightarrow> path \<Rightarrow> path \<Rightarrow> path \<Rightarrow> path \<Rightarrow> world \<Rightarrow> (bool \<times> message) \<times> world" where
  "replace_quest_texture e output_folder quest_input_folder original_texture_path
       replacement_texture_path w =
     (case replace_quest_body e output_folder quest_input_folder original_texture_path
             replacement_texture_path w of
        (Inl err, w') \<Rightarrow> ((False, ErrorText ''Quest replacement error: '' err), w')
      | (Inr result, w') \<Rightarrow> (result, w'))"

text \<open>
  \<open>TextureReplacer.convert_to_dds\<close>: the source is resized and saved as PNG in a
  temporary directory, the converter writes \<open>output.dds\<close> there, and the result is
  copied to \<open>pcvr_replace_<pid>_<base>.dds\<close> in the system's temporary directory. The
  temporary directory is removed on the way out. Any exception gives \<open>(None, 0)\<close>.
\<close>

definition convert_to_dds ::
  "env \<Rightarrow> path \<Rightarrow> int \<Rightarrow> int \<Rightarrow> world \<Rightarrow> (path option \<times> int) \<times> world" where
  "convert_to_dds e source_path target_width target_height w =
     (if \<not> texconv_exists e then ((None, 0), w)
      else
        (case (case files w source_path of
                 None \<Rightarrow> None
               | Some data \<Rightarrow> resize_to_png e data target_width target_height) of
           None \<Rightarrow> ((None, 0), w)
         | Some png \<Rightarrow>
             let tmp = mktemp e (files w);
                 out_dds = path_join tmp ''output.dds'';
                 (rc, w') = run_hidden_command e (TexconvEncode png out_dds) w
             in
             if rc \<noteq> 0 then ((None, 0), unlink_if_exists out_dds w')
             else
               (case files w' out_dds of
                  None \<Rightarrow> ((None, 0), w')
                | Some dds \<Rightarrow>
                    let dds_size = int (length dds);
                        base = splitext_root (basename source_path);
                        final_path = path_join (tempdir e)
                                       (''pcvr_replace_'' @ str_nat (pid e) @ ''_'' @ base
                                          @ ''.dds'')
                    in
                    (case copy2 (files w') out_dds final_path of
                       Inl err \<Rightarrow> ((None, 0), unlink_if_exists out_dds w')
                     | Inr f \<Rightarrow>
                         ((Some final_path, dds_size),
                          unlink_if_exists out_dds (w'\<lparr>files := f\<rparr>))))))"

text \<open>
  \<open>TextureReplacer.replace_pcvr_texture\<close>. \<open>replacement_size\<close> is \<open>None\<close> (the default) or
  the size the caller passes.
\<close>

definition pcvr_stage ::
  "path \<Rightarrow> path \<Rightarrow> path \<Rightarrow> path \<Rightarrow> path \<Rightarrow> int \<Rightarrow> fs \<Rightarrow> (py_error + bool \<times> message) \<times> fs" where
  "pcvr_stage output_folder pcvr_input_folder original_texture_path replacement_texture_path
       dds_path replacement_size f =
     (let input_textures_folder = path_join pcvr_input_folder ''beac1969cb7b8861'';
          input_corresponding_folder = path_join pcvr_input_folder ''4a4c32c49300b8a0'';
          texture_name = basename original_texture_path;
          output_corresponding_file =
            path_join (path_join output_folder ''4a4c32c49300b8a0'') texture_name;
          input_texture_path = path_join input_textures_folder texture_name;
          input_corresponding_path = path_join input_corresponding_folder texture_name
      in
      case copy2 f dds_path input_texture_path of
        Inl err \<Rightarrow> (Inl err, f)
      | Inr f1 \<Rightarrow>
          let f2 = (if dds_path \<noteq> replacement_texture_path \<and> exists f1 dds_path
                    then unlink f1 dds_path else f1)
          in
          if exists f2 output_corresponding_file then
            (case copy2 f2 output_corresponding_file input_corresponding_path of
               Inl err \<Rightarrow> (Inl err, f2)
             | Inr f3 \<Rightarrow>
                 let (patched, f4) = hex_edit_file_size f3 input_corresponding_path
                                       replacement_size
                 in if patched
                    then (Inr (True, Text (''PCVR texture replaced. Size updated to ''
                                            @ str_int replacement_size @ '' bytes.'')), f4)
                    else (Inr (False, Text ''Failed to update file size''), f4))
          else (Inr (False, Text ''Corresponding file not found''), f2))"

definition replace_pcvr_body ::
  "env \<Rightarrow> path \<Rightarrow> path \<Rightarrow> path \<Rightarrow> path \<Rightarrow> int option \<Rightarrow> world
     \<Rightarrow> (py_error + bool \<times> message) \<times> world" where
  "replace_pcvr_body e output_folder pcvr_input_folder original_texture_path
       replacement_texture_path replacement_size w =
     (case get_dds_info (files w) original_texture_path of
        None \<Rightarrow> (Inr (False, Text ''Could not read original texture dimensions''), w)
      | Some orig_info \<Rightarrow>
          let target_w = dds_width orig_info;
              target_h = dds_height orig_info;
              is_dds = (endswith (lower replacement_texture_path) ''.dds''
                        \<and> exists (files w) replacement_texture_path);
              repl_info = (if is_dds then get_dds_info (files w) replacement_texture_path
                           else None);
              needs_convert =
                (\<not> is_dds \<or>
                 (case repl_info of
                    None \<Rightarrow> False
                  | Some info \<Rightarrow> dds_width info \<noteq> target_w \<or> dds_height info \<noteq> target_h))
          in
          if needs_convert \<or> \<not> is_dds then
            (let ((dds_path, new_size), w1) =
                   convert_to_dds e replacement_texture_path target_w target_h w
             in case dds_path of
                  None \<Rightarrow>
                    (Inr (False, Text ''DDS conversion via texconv.exe failed. Check tool and file paths.''),
                     w1)
                | Some p \<Rightarrow>
                    let (result, f) = pcvr_stage output_folder pcvr_input_folder
                                        original_texture_path replacement_texture_path p new_size
                                        (files w1)
                    in (result, w1\<lparr>files := f\<rparr>))
          else
            (case (case replacement_size of
                     None \<Rightarrow> getsize (files w) replacement_texture_path
                   | Some given \<Rightarrow> Inr given) of
               Inl err \<Rightarrow> (Inl err, w)
             | Inr own_size \<Rightarrow>
                 let (result, f) = pcvr_stage output_folder pcvr_input_folder
                                     original_texture_path replacement_texture_path
                                     replacement_texture_path own_size (files w)
                 in (result, w\<lparr>files := f\<rparr>)))"

definition replace_pcvr_texture ::
  "env \<Rightarrow> path \<Rightarrow> path \<Rightarrow> path \<Rightarrow> path \<Rightarrow> int option \<Rightarrow> world \<Rightarrow> (bool \<times> message) \<times> world" where
  "replace_pcvr_texture e output_folder pcvr_input_folder original_texture_path
       replacement_texture_path replacement_size w =
     (case replace_pcvr_body e output_folder pcvr_input_folder original_texture_path
             replacement_texture_path replacement_size w of
        (Inl err, w') \<Rightarrow> ((False, ErrorText ''PCVR replacement error: '' err), w')
      | (Inr result, w') \<Rightarrow> (result, w'))"

text \<open>
  The acceptance test as the specification words it: the codec's exit code is 0, an
  output file exists, and it is larger than 1000 bytes.
\<close>

definition spec_candidate_accepted :: "proc_outcome \<Rightarrow> bytes option \<Rightarrow> bool" where
  "spec_candidate_accepted outcome out =
     (outcome = Exited 0 \<and> (case out of None \<Rightarrow> False | Some d \<Rightarrow> length d > 1000))"

text \<open>
  The brute-force path as the specification words it: the expected size by the ceil
  formula, the tolerance of 100 bytes, and decode validation of a list of
  configurations in order, stopping at the first one that validates.
\<close>

definition spec_expected_size :: "int \<Rightarrow> int \<Rightarrow> int \<Rightarrow> int \<Rightarrow> int" where
  "spec_expected_size w h bw bh =
     \<lceil>real_of_int w / real_of_int bw\<rceil> * \<lceil>real_of_int h / real_of_int bh\<rceil> * 16"

definition spec_within_tolerance :: "int \<Rightarrow> int \<times> int \<times> int \<times> int \<times> string \<Rightarrow> bool" where
  "spec_within_tolerance actual c =
     (case c of (w, h, bw, bh, label) \<Rightarrow> \<bar>spec_expected_size w h bw bh - actual\<bar> \<le> 100)"

fun spec_first_success ::
  "env \<Rightarrow> path \<Rightarrow> path \<Rightarrow> (int \<times> int \<times> int \<times> int \<times> string) list \<Rightarrow> world \<Rightarrow> bool \<times> world" where
  "spec_first_success e texture_file output_path [] w = (False, w)"
| "spec_first_success e texture_file output_path ((wd, ht, bw, bh, label) # rest) w =
     (let validated =
            decode_with_config e texture_file
              (path_join output_path (stem texture_file @ ''_BF_'' @ label @ ''.png''))
              wd ht bw bh (Some (stem texture_file)) w
      in if fst validated then (True, snd validated)
         else spec_first_success e texture_file output_path rest (snd validated))"

text \<open>
  A concrete world for the examples: a codec that always exits with 0 and leaves
  1001 zero bytes at its output path, temporary files named \<open>tmp.astc\<close>, and one raw
  texture \<open>q/foo_d\<close> of three bytes.
\<close>

definition demo_mapping :: texture_mapping where
  "demo_mapping = [(''foo'', \<lparr>tex_width = 256, tex_height = 128\<rparr>)]"

definition demo_env :: env where
  "demo_env =
     \<lparr>mktemp = (\<lambda>f. ''tmp.astc''),
      program = (\<lambda>cmd f. (Exited 0, Some (replicate 1001 0))),
      resize_to_png = (\<lambda>data w h. None),
      texconv_exists = False, tempdir = ''/tmp'', pid = 1,
      astcenc_path = ''Settings/astcenc-avx2.exe'', MAPPING_FILE = Some demo_mapping\<rparr>"

definition demo_world :: world where
  "demo_world =
     \<lparr>files = [''q/foo_d'' \<mapsto> [1, 2, 3]], DECODE_CACHE = Map.empty, launched = []\<rparr>"

section \<open>Properties of the size formula and of padding\<close>

lemma ceil_div_pos:
  fixes a b :: int
  assumes "0 < b"
  shows "(a + b - 1) div b = \<lceil>real_of_int a / real_of_int b\<rceil>"
proof -
  define q where "q = (a + b - 1) div b"
  define r where "r = (a + b - 1) mod b"
  have eq: "a + b - 1 = b * q + r"
    by (simp add: q_def r_def)
  have r: "0 \<le> r" "r < b"
    using assms by (simp_all add: r_def)
  have 1: "a \<le> b * q" using eq r by linarith
  have 2: "b * q - b < a" using eq r by linarith
  have "real_of_int a \<le> real_of_int (b * q)" using 1 by linarith
  then have 3: "real_of_int a / real_of_int b \<le> of_int q"
    using assms by (simp add: field_simps)
  have "real_of_int (b * q - b) < real_of_int a" using 2 by linarith
  then have 4: "of_int q - 1 < real_of_int a / real_of_int b"
    using assms by (simp add: field_simps)
  have "\<lceil>real_of_int a / real_of_int b\<rceil> = q"
    by (rule ceiling_unique[OF 4 3])
  then show ?thesis by (simp add: q_def)
qed

lemma blocks_nonneg:
  fixes a b :: int
  assumes "0 < b" "0 < a"
  shows "0 \<le> (a + b - 1) div b"
  using assms by (simp add: pos_imp_zdiv_nonneg_iff)

lemma blocks_mono:
  fixes a a' b :: int
  assumes "0 < b" "a \<le> a'"
  shows "(a + b - 1) div b \<le> (a' + b - 1) div b"
  using assms by (intro zdiv_mono1) simp_all

text \<open>
  Claim C7. For positive dimensions and block sizes \<open>calculate_astc_size\<close> returns
  \<open>ceil(w/bw) * ceil(h/bh) * 16\<close>; \<open>(4,4,4,4)\<close> gives 16 and \<open>(5,4,4,4)\<close> gives 32; and
  for a fixed block size the result does not decrease when \<open>w\<close> or \<open>h\<close> grows.
\<close>

theorem calculate_astc_size_ceil_formula:
  assumes "0 < w" "0 < h" "0 < bw" "0 < bh"
  shows "calculate_astc_size w h bw bh =
           Inr (\<lceil>real_of_int w / real_of_int bw\<rceil> * \<lceil>real_of_int h / real_of_int bh\<rceil> * 16)
       \<and> calculate_astc_size 4 4 4 4 = Inr 16
       \<and> calculate_astc_size 5 4 4 4 = Inr 32
       \<and> (\<forall>w' h'. w \<le> w' \<longrightarrow> h \<le> h' \<longrightarrow>
            (\<exists>s s'. calculate_astc_size w h bw bh = Inr s
                   \<and> calculate_astc_size w' h' bw bh = Inr s' \<and> s \<le> s'))"
proof (intro conjI allI impI)
  show "calculate_astc_size w h bw bh =
           Inr (\<lceil>real_of_int w / real_of_int bw\<rceil> * \<lceil>real_of_int h / real_of_int bh\<rceil> * 16)"
    using assms by (simp add: calculate_astc_size_def Let_def ceil_div_pos)
  show "calculate_astc_size 4 4 4 4 = Inr 16"
    by (simp add: calculate_astc_size_def)
  show "calculate_astc_size 5 4 4 4 = Inr 32"
    by (simp add: calculate_astc_size_def)
next
  fix w' h' :: int
  assume le: "w \<le> w'" "h \<le> h'"
  have x: "(w + bw - 1) div bw \<le> (w' + bw - 1) div bw"
    using assms le by (intro blocks_mono) simp_all
  have y: "(h + bh - 1) div bh \<le> (h' + bh - 1) div bh"
    using assms le by (intro blocks_mono) simp_all
  have y0: "0 \<le> (h + bh - 1) div bh"
    using assms by (intro blocks_nonneg) simp_all
  have x0: "0 \<le> (w' + bw - 1) div bw"
    using assms le by (intro blocks_nonneg) simp_all
  have "(w + bw - 1) div bw * ((h + bh - 1) div bh)
          \<le> (w' + bw - 1) div bw * ((h' + bh - 1) div bh)"
    using x y x0 y0 by (rule mult_mono)
  then show "\<exists>s s'. calculate_astc_size w h bw bh = Inr s
                   \<and> calculate_astc_size w' h' bw bh = Inr s' \<and> s \<le> s'"
    using assms by (simp add: calculate_astc_size_def Let_def)
qed

theorem calculate_astc_size_ceil_formula_witness:
  "(0::int) < 7 \<and> (0::int) < 9 \<and> (0::int) < 4 \<and> (0::int) < 6
     \<and> calculate_astc_size 7 9 4 6 = Inr 64
     \<and> (\<exists>s s'. calculate_astc_size 7 9 4 6 = Inr s
            \<and> calculate_astc_size 8 13 4 6 = Inr s' \<and> s \<le> s')"
  using calculate_astc_size_ceil_formula [of 7 9 4 6] by (simp add: calculate_astc_size_def)

text \<open>
  Claim C6. For a target \<open>n \<ge> 0\<close> the result of \<open>pad_to_size\<close> has length exactly \<open>n\<close>:
  shorter data is followed by zero bytes, longer data is cut to its first \<open>n\<close> bytes,
  data of length \<open>n\<close> is returned as it is; so padding twice is padding once.
\<close>

theorem pad_to_size_exact:
  assumes "0 \<le> n"
  shows "length (pad_to_size data n) = nat n
       \<and> (int (length data) < n \<longrightarrow>
            pad_to_size data n = data @ replicate (nat n - length data) 0)
       \<and> (int (length data) > n \<longrightarrow> pad_to_size data n = take (nat n) data)
       \<and> (int (length data) = n \<longrightarrow> pad_to_size data n = data)
       \<and> pad_to_size (pad_to_size data n) n = pad_to_size data n"
proof -
  have len: "length (pad_to_size d n) = nat n" for d
    using assms by (auto simp: pad_to_size_def Let_def slice_to_def)
  have fixp: "pad_to_size d n = d" if "int (length d) = n" for d
    using that by (simp add: pad_to_size_def)
  have "pad_to_size (pad_to_size data n) n = pad_to_size data n"
    using assms by (intro fixp) (simp add: len)
  moreover have "int (length data) < n \<longrightarrow>
            pad_to_size data n = data @ replicate (nat n - length data) 0"
    by (auto simp: pad_to_size_def Let_def nat_diff_distrib')
  moreover have "int (length data) > n \<longrightarrow> pad_to_size data n = take (nat n) data"
    using assms by (simp add: pad_to_size_def slice_to_def)
  ultimately show ?thesis
    using len fixp by blast
qed

theorem pad_to_size_exact_witness:
  "(0::int) \<le> 5
     \<and> pad_to_size [1, 2, 3] 5 = [1, 2, 3, 0, 0]
     \<and> pad_to_size (pad_to_size [1, 2, 3] 5) 5 = pad_to_size [1, 2, 3] 5
     \<and> length (pad_to_size [1, 2, 3] 5) = 5"
  using pad_to_size_exact [of 5 "[1, 2, 3]"] by (simp add: pad_to_size_def eval_nat_numeral)

section \<open>The synthetic wrapper, the header parser and the size field\<close>

lemma pack_u32_le_magic:
  "pack_u32_le 0x5CA1AB13 = Inr [0x13, 0xAB, 0xA1, 0x5C]"
  by (simp add: pack_u32_le_def)

lemma dim3_small:
  assumes "0 \<le> x" "x \<le> 65535"
  shows "dim3 x = Inr [word_of_int (x mod 256), word_of_int (x div 256), 0]"
proof -
  have "x div 65536 = 0" "x div 256 mod 256 = x div 256" using assms by simp_all
  then show ?thesis
    using assms by (simp add: dim3_def bind_err_def pack_u32_le_def)
qed

lemma astc_header_bytes:
  assumes "1 \<le> w" "w \<le> 65535" "1 \<le> h" "h \<le> 65535"
      and "1 \<le> bw" "bw \<le> 255" "1 \<le> bh" "bh \<le> 255"
  shows "astc_header w h bw bh =
           Inr [0x13, 0xAB, 0xA1, 0x5C, word_of_int bw, word_of_int bh, 1,
                word_of_int (w mod 256), word_of_int (w div 256), 0,
                word_of_int (h mod 256), word_of_int (h div 256), 0, 1, 0, 0]"
proof -
  have "dim3 w = Inr [word_of_int (w mod 256), word_of_int (w div 256), 0]"
    using assms by (intro dim3_small) simp_all
  moreover have "dim3 h = Inr [word_of_int (h mod 256), word_of_int (h div 256), 0]"
    using assms by (intro dim3_small) simp_all
  moreover have "dim3 1 = Inr [1, 0, 0]"
    using dim3_small [of 1] by simp
  moreover have "pack_3B bw bh 1 = Inr [word_of_int bw, word_of_int bh, 1]"
    using assms by (simp add: pack_3B_def)
  ultimately show ?thesis
    by (simp add: astc_header_def bind_err_def pack_u32_le_magic)
qed

text \<open>
  Claim C5. Round trip: for a non-empty raw payload, \<open>w, h\<close> in \<open>1..65535\<close> and
  \<open>bw, bh\<close> in \<open>1..255\<close>, \<open>wrap_raw_astc\<close> succeeds and writes the 16-byte header
  (magic \<open>13 AB A1 5C\<close>, the bytes \<open>bw, bh, 1\<close>, three little-endian 3-byte values
  \<open>w, h, 1\<close>) followed by the payload, and stripping the header as \<open>encode_texture\<close> does
  gives back exactly the payload.
\<close>

theorem wrap_then_strip_roundtrip:
  assumes "raw \<noteq> []"
      and "1 \<le> w" "w \<le> 65535" "1 \<le> h" "h \<le> 65535"
      and "1 \<le> bw" "bw \<le> 255" "1 \<le> bh" "bh \<le> 255"
      and "f raw_path = Some raw"
  shows "\<exists>wrapped.
           wrap_raw_astc f raw_path wrapped_path w h bw bh = (True, f(wrapped_path \<mapsto> wrapped))
         \<and> wrapped = [0x13, 0xAB, 0xA1, 0x5C, word_of_int bw, word_of_int bh, 1,
                       word_of_int (w mod 256), word_of_int (w div 256), 0,
                       word_of_int (h mod 256), word_of_int (h div 256), 0, 1, 0, 0] @ raw
         \<and> strip_astc_header wrapped = raw"
proof -
  let ?hd = "[0x13, 0xAB, 0xA1, 0x5C, word_of_int bw, word_of_int bh, 1,
              word_of_int (w mod 256), word_of_int (w div 256), 0,
              word_of_int (h mod 256), word_of_int (h div 256), 0, 1, 0, 0] :: bytes"
  have hdr: "astc_header w h bw bh = Inr ?hd"
    using assms(2-9) by (rule astc_header_bytes)
  have wr: "wrap_raw_astc f raw_path wrapped_path w h bw bh = (True, f(wrapped_path \<mapsto> ?hd @ raw))"
    using assms(10) by (simp add: wrap_raw_astc_def hdr bind_err_def read_bytes_def)
  have "0 < length raw" using assms(1) by simp
  then have st: "strip_astc_header (?hd @ raw) = raw"
    by (simp add: strip_astc_header_def)
  show ?thesis using wr st by blast
qed

theorem wrap_then_strip_roundtrip_witness:
  "[5, 6, 7] \<noteq> ([] :: bytes) \<and> (1::int) \<le> 2048 \<and> (2048::int) \<le> 65535
     \<and> (1::int) \<le> 1024 \<and> (1024::int) \<le> 65535 \<and> (1::int) \<le> 8 \<and> (8::int) \<le> 255
     \<and> [''raw'' \<mapsto> [5, 6, 7 :: byte]] ''raw'' = Some [5, 6, 7]
     \<and> (\<exists>wrapped.
           wrap_raw_astc [''raw'' \<mapsto> [5, 6, 7]] ''raw'' ''tmp.astc'' 2048 1024 8 8
             = (True, [''raw'' \<mapsto> [5, 6, 7], ''tmp.astc'' \<mapsto> wrapped])
         \<and> wrapped = [0x13, 0xAB, 0xA1, 0x5C, 8, 8, 1, 0, 8, 0, 0, 4, 0, 1, 0, 0, 5, 6, 7]
         \<and> strip_astc_header wrapped = [5, 6, 7])"
  using wrap_then_strip_roundtrip
    [of "[5, 6, 7]" 2048 1024 8 8 "[''raw'' \<mapsto> [5, 6, 7]]" "''raw''" "''tmp.astc''"]
  by simp

lemma take4:
  assumes "4 \<le> length ys"
  shows "take 4 ys = [ys ! 0, ys ! 1, ys ! 2, ys ! 3]"
proof -
  have "take (Suc (Suc (Suc (Suc 0)))) ys = [ys ! 0, ys ! Suc 0, ys ! Suc (Suc 0), ys ! Suc (Suc (Suc 0))]"
  proof -
    have "ys \<noteq> []" using assms by auto
    then have "take (Suc 0) ys = [ys ! 0]"
      by (cases ys) simp_all
    then show ?thesis
      using assms by (simp add: take_Suc_conv_app_nth)
  qed
  then show ?thesis by (simp add: eval_nat_numeral)
qed

lemma slice4:
  assumes "i + 4 \<le> length xs"
  shows "py_slice i (i + 4) xs = [xs ! i, xs ! (i + 1), xs ! (i + 2), xs ! (i + 3)]"
proof -
  have "4 \<le> length (drop i xs)" using assms by simp
  then have "take 4 (drop i xs) = [drop i xs ! 0, drop i xs ! 1, drop i xs ! 2, drop i xs ! 3]"
    by (rule take4)
  then show ?thesis using assms by (simp add: py_slice_def)
qed

lemma unpack_slice:
  assumes "i + 4 \<le> length xs"
  shows "unpack_u32_le (py_slice i (i + 4) xs) = Inr (le32_at xs i)"
  using slice4 [OF assms] by (simp add: unpack_u32_le_def le32_at_def)

lemma le32_decompose:
  fixes n :: int
  shows "n mod 256 + 256 * (n div 256 mod 256) + 65536 * (n div 65536 mod 256)
           + 16777216 * (n div 16777216) = n"
proof -
  define q1 where "q1 = n div 256"
  define q2 where "q2 = q1 div 256"
  define q3 where "q3 = q2 div 256"
  have a: "n div 65536 = q2"
    unfolding q2_def q1_def by (simp add: zdiv_zmult2_eq)
  have b: "n div 16777216 = q3"
    unfolding q3_def q2_def q1_def by (simp add: zdiv_zmult2_eq)
  have 1: "n = 256 * q1 + n mod 256" unfolding q1_def by simp
  have 2: "q1 = 256 * q2 + q1 mod 256" unfolding q2_def by simp
  have 3: "q2 = 256 * q3 + q2 mod 256" unfolding q3_def by simp
  have "n mod 256 + 256 * (q1 mod 256) + 65536 * (q2 mod 256) + 16777216 * q3 = n"
    using 1 2 3 by linarith
  then show ?thesis
    using a b by (simp add: q1_def)
qed

lemma uint_byte:
  fixes x :: int
  assumes "0 \<le> x" "x < 256"
  shows "uint (word_of_int x :: byte) = x"
  using assms by (simp add: uint_word_of_int)

lemma le32_at_packed:
  assumes "0 \<le> n" "n < 4294967296" "length pre = i"
  shows "le32_at (pre @ [word_of_int (n mod 256), word_of_int (n div 256 mod 256),
                         word_of_int (n div 65536 mod 256), word_of_int (n div 16777216)] @ post) i = n"
proof -
  have top: "0 \<le> n div 16777216" "n div 16777216 < 256"
    using assms by simp_all
  have "uint (word_of_int (n mod 256) :: byte) = n mod 256"
       "uint (word_of_int (n div 256 mod 256) :: byte) = n div 256 mod 256"
       "uint (word_of_int (n div 65536 mod 256) :: byte) = n div 65536 mod 256"
       "uint (word_of_int (n div 16777216) :: byte) = n div 16777216"
    using top by (simp_all add: uint_byte)
  then show ?thesis
    using assms(3) le32_decompose [of n] by (simp add: le32_at_def nth_append)
qed

text \<open>
  Claim C4. On a descriptor shorter than 248 bytes \<open>hex_edit_file_size\<close> returns
  \<open>False\<close> and leaves the file system as it was. On one of at least 248 bytes, with a
  size that has a 4-byte encoding, it returns \<open>True\<close>, bytes 244..247 become the
  little-endian encoding of the size, and every other byte and the length stay. A
  size without a 4-byte encoding is refused, again with nothing written.
\<close>

theorem hex_edit_file_size_patch:
  assumes "f p = Some blob"
  shows "(length blob < 248 \<longrightarrow> hex_edit_file_size f p n = (False, f))
       \<and> (248 \<le> length blob \<and> 0 \<le> n \<and> n < 4294967296 \<longrightarrow>
            (\<exists>blob'. hex_edit_file_size f p n = (True, f(p \<mapsto> blob'))
               \<and> length blob' = length blob
               \<and> py_slice 244 248 blob' =
                    [word_of_int (n mod 256), word_of_int (n div 256 mod 256),
                     word_of_int (n div 65536 mod 256), word_of_int (n div 16777216)]
               \<and> le32_at blob' 244 = n
               \<and> (\<forall>i < length blob. i < 244 \<or> 248 \<le> i \<longrightarrow> blob' ! i = blob ! i)))
       \<and> (248 \<le> length blob \<and> (n < 0 \<or> 4294967296 \<le> n) \<longrightarrow>
            hex_edit_file_size f p n = (False, f))"
proof (intro conjI impI)
  assume "length blob < 248"
  then show "hex_edit_file_size f p n = (False, f)"
    using assms by (simp add: hex_edit_file_size_def read_bytes_def)
next
  assume "248 \<le> length blob \<and> (n < 0 \<or> 4294967296 \<le> n)"
  then show "hex_edit_file_size f p n = (False, f)"
    using assms by (auto simp: hex_edit_file_size_def read_bytes_def pack_u32_le_def)
next
  assume h: "248 \<le> length blob \<and> 0 \<le> n \<and> n < 4294967296"
  let ?le = "[word_of_int (n mod 256), word_of_int (n div 256 mod 256),
              word_of_int (n div 65536 mod 256), word_of_int (n div 16777216)] :: bytes"
  let ?b = "take 244 blob @ ?le @ drop 248 blob"
  have run: "hex_edit_file_size f p n = (True, f(p \<mapsto> ?b))"
    using assms h by (simp add: hex_edit_file_size_def read_bytes_def pack_u32_le_def)
  have len: "length ?b = length blob"
    using h by (simp, arith)
  have sl: "py_slice 244 248 ?b = ?le"
    using h by (simp add: py_slice_def)
  have le: "le32_at ?b 244 = n"
    using h by (intro le32_at_packed) simp_all
  have other: "?b ! i = blob ! i" if "i < length blob" "i < 244 \<or> 248 \<le> i" for i
  proof (cases "i < 244")
    case True
    then show ?thesis using h by (simp add: nth_append)
  next
    case False
    then have "248 \<le> i" using that by simp
    then obtain k where k: "i = 248 + k" using le_Suc_ex by blast
    have "?b ! i = (?le @ drop 248 blob) ! (4 + k)"
      using h k by (simp add: nth_append)
    also have "\<dots> = drop 248 blob ! k"
      by (simp add: nth_append)
    also have "\<dots> = blob ! i"
      using h k that by simp
    finally show ?thesis .
  qed
  show "\<exists>blob'. hex_edit_file_size f p n = (True, f(p \<mapsto> blob'))
               \<and> length blob' = length blob
               \<and> py_slice 244 248 blob' = ?le
               \<and> le32_at blob' 244 = n
               \<and> (\<forall>i < length blob. i < 244 \<or> 248 \<le> i \<longrightarrow> blob' ! i = blob ! i)"
    using run len sl le other by blast
qed


theorem hex_edit_file_size_patch_witness:
  "[''d'' \<mapsto> replicate 248 (7 :: byte)] ''d'' = Some (replicate 248 7)
     \<and> 248 \<le> length (replicate 248 (7 :: byte)) \<and> (0::int) \<le> 66051 \<and> (66051::int) < 4294967296
     \<and> (\<exists>blob'. hex_edit_file_size [''d'' \<mapsto> replicate 248 7] ''d'' 66051
                     = (True, [''d'' \<mapsto> replicate 248 7, ''d'' \<mapsto> blob'])
             \<and> length blob' = 248 \<and> py_slice 244 248 blob' = [3, 2, 1, 0]
             \<and> le32_at blob' 244 = 66051)"
  using hex_edit_file_size_patch [of "[''d'' \<mapsto> replicate 248 7]" "''d''" "replicate 248 7" 66051]
  by (simp, blast)

lemma dds_format_total:
  "\<exists>r. dds_format four_cc extended_header flags = Inr r"
proof (cases "20 \<le> length extended_header")
  case True
  then have "0 + 4 \<le> length extended_header" by simp
  then have "unpack_u32_le (py_slice 0 (0 + 4) extended_header) = Inr (le32_at extended_header 0)"
    by (rule unpack_slice)
  then show ?thesis
    by (auto simp: dds_format_def bind_err_def)
next
  case False
  then show ?thesis
    by (auto simp: dds_format_def bind_err_def)
qed

lemma le32_at_take:
  assumes "i + 4 \<le> k"
  shows "le32_at (take k xs) i = le32_at xs i"
  using assms by (simp add: le32_at_def)

lemma get_dds_info_valid:
  assumes "f p = Some content" "128 \<le> length content" "take 4 content = ascii ''DDS ''"
  shows "\<exists>info. get_dds_info f p = Some info
               \<and> dds_height info = le32_at (drop 4 content) 8
               \<and> dds_width info = le32_at (drop 4 content) 12
               \<and> mipmaps info = le32_at (drop 4 content) 24"
proof -
  define header where "header = take 124 (drop 4 content)"
  have len: "length header = 124"
    using assms(2) by (simp add: header_def)
  have u: "unpack_u32_le (py_slice i (i + 4) header) = Inr (le32_at (drop 4 content) i)"
    if "i + 4 \<le> 124" for i
  proof -
    have "unpack_u32_le (py_slice i (i + 4) header) = Inr (le32_at header i)"
      using that len by (intro unpack_slice) simp
    then show ?thesis
      using that by (simp add: header_def le32_at_take)
  qed
  have u8: "unpack_u32_le (py_slice 8 12 header) = Inr (le32_at (drop 4 content) 8)"
    using u [of 8] by simp
  have u12: "unpack_u32_le (py_slice 12 16 header) = Inr (le32_at (drop 4 content) 12)"
    using u [of 12] by simp
  have u24: "unpack_u32_le (py_slice 24 28 header) = Inr (le32_at (drop 4 content) 24)"
    using u [of 24] by simp
  have u76: "unpack_u32_le (py_slice 76 80 header) = Inr (le32_at (drop 4 content) 76)"
    using u [of 76] by simp
  obtain name code prob where
    fmt: "dds_format (py_slice 80 84 header) (take 20 (drop 128 content))
            (le32_at (drop 4 content) 76) = Inr (name, code, prob)"
    using dds_format_total by (metis prod_cases3)
  have "get_dds_info f p =
          Some \<lparr>dds_width = le32_at (drop 4 content) 12,
                dds_height = le32_at (drop 4 content) 8,
                mipmaps = le32_at (drop 4 content) 24, format = name,
                dds_file_size = int (length content), format_code = code,
                is_problematic = prob\<rparr>"
    using assms len
    by (simp add: get_dds_info_def Let_def header_def [symmetric] u8 u12 u24 u76 fmt bind_err_def)
  then show ?thesis by simp
qed

text \<open>
  Claim C3. \<open>get_dds_info\<close> returns \<open>None\<close> for a buffer shorter than 128 bytes and for
  one whose first four bytes are not \<open>DDS \<close>; for a buffer of at least 128 bytes with
  that signature it returns a record whose height, width and mipmap count are the
  little-endian 32-bit values at offsets 8, 12 and 24 of the header that follows the
  signature.
\<close>

theorem get_dds_info_header:
  assumes "f p = Some content"
  shows "(length content < 128 \<longrightarrow> get_dds_info f p = None)
       \<and> (take 4 content \<noteq> ascii ''DDS '' \<longrightarrow> get_dds_info f p = None)
       \<and> (128 \<le> length content \<and> take 4 content = ascii ''DDS '' \<longrightarrow>
            (\<exists>info. get_dds_info f p = Some info
               \<and> dds_height info = le32_at (drop 4 content) 8
               \<and> dds_width info = le32_at (drop 4 content) 12
               \<and> mipmaps info = le32_at (drop 4 content) 24))"
proof (intro conjI impI)
  assume "length content < 128"
  then have "length (take 124 (drop 4 content)) < 124" by simp
  then show "get_dds_info f p = None"
    using assms by (simp add: get_dds_info_def Let_def del: length_take length_drop)
next
  assume "take 4 content \<noteq> ascii ''DDS ''"
  then show "get_dds_info f p = None"
    using assms by (simp add: get_dds_info_def Let_def)
next
  assume "128 \<le> length content \<and> take 4 content = ascii ''DDS ''"
  then show "\<exists>info. get_dds_info f p = Some info
               \<and> dds_height info = le32_at (drop 4 content) 8
               \<and> dds_width info = le32_at (drop 4 content) 12
               \<and> mipmaps info = le32_at (drop 4 content) 24"
    using assms get_dds_info_valid by blast
qed

theorem get_dds_info_header_witness:
  "[''t.dds'' \<mapsto> ascii ''DDS '' @ replicate 8 0 @ [1, 2, 0, 0] @ [0, 1, 0, 0]
        @ replicate 8 0 @ [9, 0, 0, 0] @ replicate 96 0] ''t.dds''
     = Some (ascii ''DDS '' @ replicate 8 0 @ [1, 2, 0, 0] @ [0, 1, 0, 0]
        @ replicate 8 0 @ [9, 0, 0, 0] @ replicate 96 0)
   \<and> (\<exists>info. get_dds_info
          [''t.dds'' \<mapsto> ascii ''DDS '' @ replicate 8 0 @ [1, 2, 0, 0] @ [0, 1, 0, 0]
             @ replicate 8 0 @ [9, 0, 0, 0] @ replicate 96 0] ''t.dds'' = Some info
        \<and> dds_height info = 513 \<and> dds_width info = 256 \<and> mipmaps info = 9)"
proof -
  let ?c = "ascii ''DDS '' @ replicate 8 0 @ [1, 2, 0, 0] @ [0, 1, 0, 0]
        @ replicate 8 0 @ [9, 0, 0, 0] @ replicate 96 (0 :: byte)"
  have len: "128 \<le> length ?c" by (simp add: ascii_def)
  have sig: "take 4 ?c = ascii ''DDS ''" by (simp add: ascii_def)
  have v: "le32_at (drop 4 ?c) 8 = 513" "le32_at (drop 4 ?c) 12 = 256"
          "le32_at (drop 4 ?c) 24 = 9"
    by code_simp+
  show ?thesis
    using get_dds_info_header [of "[''t.dds'' \<mapsto> ?c]" "''t.dds''" ?c] len sig v
    by simp
qed

section \<open>Candidate validation and the two resolution paths\<close>

lemma returncode_zero: "returncode outcome = 0 \<longleftrightarrow> outcome = Exited 0"
  by (cases outcome) (simp_all add: returncode_def)

lemma wrap_raw_astc_ok:
  assumes "f raw_file = Some raw" "astc_header width height block_w block_h = Inr header"
  shows "wrap_raw_astc f raw_file tmp width height block_w block_h
           = (True, f(tmp \<mapsto> header @ raw))"
  using assms by (simp add: wrap_raw_astc_def bind_err_def read_bytes_def)

lemma decode_attempt_result:
  assumes raw: "files w1 raw_file = Some raw"
      and hdr: "astc_header width height block_w block_h = Inr header"
      and prog: "program e (AstcDecode tmp output_file) ((files w1)(tmp \<mapsto> header @ raw))
                   = (outcome, out)"
  shows "fst (decode_attempt e tmp raw_file output_file width height block_w block_h cache_key w1)
           = spec_candidate_accepted outcome out"
    and "files (snd (decode_attempt e tmp raw_file output_file width height block_w block_h
                       cache_key w1))
           = (files w1)(tmp \<mapsto> header @ raw,
                        output_file := (if spec_candidate_accepted outcome out then out else None))"
    and "launched (snd (decode_attempt e tmp raw_file output_file width height block_w block_h
                          cache_key w1))
           = launched w1 @ [AstcDecode tmp output_file]"
    and "DECODE_CACHE (snd (decode_attempt e tmp raw_file output_file width height block_w
                              block_h cache_key w1))
           = (if spec_candidate_accepted outcome out \<and> cache_key \<noteq> None \<and> cache_key \<noteq> Some []
              then (DECODE_CACHE w1)(the cache_key \<mapsto>
                     \<lparr>cfg_width = width, cfg_height = height, cfg_block_w = block_w,
                      cfg_block_h = block_h,
                      cfg_original_size =
                        int (length (the (((files w1)(tmp \<mapsto> header @ raw, output_file := out))
                                           raw_file)))\<rparr>)
              else DECODE_CACHE w1)"
proof -
  have wr: "wrap_raw_astc (files w1) raw_file tmp width height block_w block_h
              = (True, (files w1)(tmp \<mapsto> header @ raw))"
    using raw hdr by (rule wrap_raw_astc_ok)
  have run: "run_hidden_command e (AstcDecode tmp output_file)
               (w1\<lparr>files := (files w1)(tmp \<mapsto> header @ raw)\<rparr>)
             = (returncode outcome,
                w1\<lparr>files := (files w1)(tmp \<mapsto> header @ raw, output_file := out),
                   launched := launched w1 @ [AstcDecode tmp output_file]\<rparr>)"
    using prog by (simp add: run_hidden_command_def)
  note defs = decode_attempt_def wr run Let_def exists_def getsize_def unlink_if_exists_def
    unlink_def returncode_zero spec_candidate_accepted_def
  show "fst (decode_attempt e tmp raw_file output_file width height block_w block_h cache_key w1)
           = spec_candidate_accepted outcome out"
    using raw by (cases out; cases cache_key) (auto simp: defs split: option.splits)
  show "files (snd (decode_attempt e tmp raw_file output_file width height block_w block_h
                       cache_key w1))
           = (files w1)(tmp \<mapsto> header @ raw,
                        output_file := (if spec_candidate_accepted outcome out then out else None))"
    using raw by (cases out; cases cache_key) (auto simp: defs split: option.splits)
  show "launched (snd (decode_attempt e tmp raw_file output_file width height block_w block_h
                          cache_key w1))
           = launched w1 @ [AstcDecode tmp output_file]"
    using raw by (cases out; cases cache_key) (auto simp: defs split: option.splits)
  show "DECODE_CACHE (snd (decode_attempt e tmp raw_file output_file width height block_w
                              block_h cache_key w1))
           = (if spec_candidate_accepted outcome out \<and> cache_key \<noteq> None \<and> cache_key \<noteq> Some []
              then (DECODE_CACHE w1)(the cache_key \<mapsto>
                     \<lparr>cfg_width = width, cfg_height = height, cfg_block_w = block_w,
                      cfg_block_h = block_h,
                      cfg_original_size =
                        int (length (the (((files w1)(tmp \<mapsto> header @ raw, output_file := out))
                                           raw_file)))\<rparr>)
              else DECODE_CACHE w1)"
    using raw by (cases out; cases cache_key) (auto simp: defs split: option.splits)
qed

lemma named_temporary_file_eq:
  "named_temporary_file e w
     = (mktemp e (files w), w\<lparr>files := (files w)(mktemp e (files w) \<mapsto> [])\<rparr>)"
  by (simp add: named_temporary_file_def Let_def)

lemma files_unlink_if_exists [simp]:
  "files (unlink_if_exists p w) = (files w)(p := None)"
  by (auto simp: unlink_if_exists_def unlink_def exists_def)

lemma cache_unlink_if_exists [simp]:
  "DECODE_CACHE (unlink_if_exists p w) = DECODE_CACHE w"
  by (simp add: unlink_if_exists_def)

lemma launched_unlink_if_exists [simp]:
  "launched (unlink_if_exists p w) = launched w"
  by (simp add: unlink_if_exists_def)

lemma decode_with_config_result:
  assumes raw: "files w raw_file = Some raw"
      and hdr: "astc_header width height block_w block_h = Inr header"
      and tmp: "mktemp e (files w) = tmp" "tmp \<noteq> raw_file" "tmp \<noteq> output_file"
      and prog: "program e (AstcDecode tmp output_file) ((files w)(tmp \<mapsto> header @ raw))
                   = (outcome, out)"
  shows "fst (decode_with_config e raw_file output_file width height block_w block_h cache_key w)
           = spec_candidate_accepted outcome out"
    and "files (snd (decode_with_config e raw_file output_file width height block_w block_h
                       cache_key w))
           = (files w)(tmp := None,
                       output_file := (if spec_candidate_accepted outcome out then out else None))"
    and "launched (snd (decode_with_config e raw_file output_file width height block_w block_h
                          cache_key w))
           = launched w @ [AstcDecode tmp output_file]"
    and "DECODE_CACHE (snd (decode_with_config e raw_file output_file width height block_w
                              block_h cache_key w))
           = (if spec_candidate_accepted outcome out \<and> cache_key \<noteq> None \<and> cache_key \<noteq> Some []
              then (DECODE_CACHE w)(the cache_key \<mapsto>
                     \<lparr>cfg_width = width, cfg_height = height, cfg_block_w = block_w,
                      cfg_block_h = block_h,
                      cfg_original_size =
                        int (length (if raw_file = output_file then the out else raw))\<rparr>)
              else DECODE_CACHE w)"
proof -
  define w1 where "w1 = w\<lparr>files := (files w)(tmp \<mapsto> [])\<rparr>"
  have raw1: "files w1 raw_file = Some raw"
    using raw tmp by (simp add: w1_def)
  have prog1: "program e (AstcDecode tmp output_file) ((files w1)(tmp \<mapsto> header @ raw))
                 = (outcome, out)"
    using prog by (simp add: w1_def)
  note att = decode_attempt_result [OF raw1 hdr prog1, of cache_key]
  have l1: "launched w1 = launched w" and c1: "DECODE_CACHE w1 = DECODE_CACHE w"
    by (simp_all add: w1_def)
  have dwc: "decode_with_config e raw_file output_file width height block_w block_h cache_key w
               = (fst (decode_attempt e tmp raw_file output_file width height block_w block_h
                        cache_key w1),
                  unlink_if_exists tmp
                    (snd (decode_attempt e tmp raw_file output_file width height block_w block_h
                        cache_key w1)))"
    using tmp(1)
    by (simp add: decode_with_config_def named_temporary_file_eq w1_def split_beta)
  show "fst (decode_with_config e raw_file output_file width height block_w block_h cache_key w)
           = spec_candidate_accepted outcome out"
    by (simp add: dwc att(1))
  show "files (snd (decode_with_config e raw_file output_file width height block_w block_h
                       cache_key w))
           = (files w)(tmp := None,
                       output_file := (if spec_candidate_accepted outcome out then out else None))"
  proof -
    let ?x = "if spec_candidate_accepted outcome out then out else None"
    have "files (snd (decode_with_config e raw_file output_file width height block_w block_h
                       cache_key w))
            = ((files w1)(tmp \<mapsto> header @ raw, output_file := ?x))(tmp := None)"
      by (simp add: dwc att(2))
    also have "\<dots> = (files w)(tmp := None, output_file := ?x)"
      using tmp(3) by (intro ext) (simp add: w1_def)
    finally show ?thesis .
  qed
  show "launched (snd (decode_with_config e raw_file output_file width height block_w block_h
                          cache_key w))
           = launched w @ [AstcDecode tmp output_file]"
    by (simp add: dwc att(3) l1)
  have "(((files w1)(tmp \<mapsto> header @ raw, output_file := out)) raw_file)
          = (if raw_file = output_file then out else Some raw)"
    using raw1 tmp(2) by simp
  moreover have "out \<noteq> None" if "spec_candidate_accepted outcome out"
    using that by (auto simp: spec_candidate_accepted_def split: option.splits)
  ultimately show "DECODE_CACHE (snd (decode_with_config e raw_file output_file width height block_w
                              block_h cache_key w))
           = (if spec_candidate_accepted outcome out \<and> cache_key \<noteq> None \<and> cache_key \<noteq> Some []
              then (DECODE_CACHE w)(the cache_key \<mapsto>
                     \<lparr>cfg_width = width, cfg_height = height, cfg_block_w = block_w,
                      cfg_block_h = block_h,
                      cfg_original_size =
                        int (length (if raw_file = output_file then the out else raw))\<rparr>)
              else DECODE_CACHE w)"
    by (auto simp: dwc att(4) c1)
qed

lemma not_accepted_failures:
  assumes "outcome = TimeoutExpired \<or> outcome = LaunchFailed \<or> (\<exists>rc. outcome = Exited rc \<and> rc \<noteq> 0)"
  shows "\<not> spec_candidate_accepted outcome out"
  using assms by (auto simp: spec_candidate_accepted_def)

text \<open>
  Claim C8. When the wrapper is built and the codec is launched on it, the candidate
  is accepted exactly when the codec exits with 0, the output file exists and it is
  larger than 1000 bytes. Otherwise (a timeout and a non-zero exit included) the
  output file is gone afterwards, the cache is unchanged, the result is \<open>False\<close>, and
  both resolution loops go on with the next candidate in the world this attempt left.
\<close>

theorem decode_with_config_accepts_iff:
  assumes raw: "files w raw_file = Some raw"
      and hdr: "astc_header width height block_w block_h = Inr header"
      and tmp: "mktemp e (files w) = tmp" "tmp \<noteq> raw_file" "tmp \<noteq> output_file"
      and prog: "program e (AstcDecode tmp output_file) ((files w)(tmp \<mapsto> header @ raw))
                   = (outcome, out)"
  shows "fst (decode_with_config e raw_file output_file width height block_w block_h cache_key w)
           = spec_candidate_accepted outcome out
       \<and> launched (snd (decode_with_config e raw_file output_file width height block_w block_h
                           cache_key w))
           = launched w @ [AstcDecode tmp output_file]
       \<and> (\<not> spec_candidate_accepted outcome out \<longrightarrow>
            files (snd (decode_with_config e raw_file output_file width height block_w block_h
                          cache_key w)) output_file = None
          \<and> DECODE_CACHE (snd (decode_with_config e raw_file output_file width height block_w
                                  block_h cache_key w)) = DECODE_CACHE w)
       \<and> (outcome = TimeoutExpired \<or> outcome = LaunchFailed
            \<or> (\<exists>rc. outcome = Exited rc \<and> rc \<noteq> 0) \<longrightarrow>
            \<not> fst (decode_with_config e raw_file output_file width height block_w block_h
                     cache_key w))
       \<and> decode_with_mapping_loop e raw_file output_file width height texture_name
            ((block_w, block_h) # rest) w
           = (if spec_candidate_accepted outcome out
              then (True, snd (decode_with_config e raw_file output_file width height
                                 block_w block_h (Some texture_name) w))
              else decode_with_mapping_loop e raw_file output_file width height texture_name rest
                     (snd (decode_with_config e raw_file output_file width height
                             block_w block_h (Some texture_name) w)))
       \<and> (calculate_astc_size width height block_w block_h = Inr expected_size
            \<and> \<not> \<bar>expected_size - file_size\<bar> > 100
            \<and> output_file = path_join output_path (stem raw_file @ ''_BF_'' @ desc @ ''.png'') \<longrightarrow>
          brute_force_loop e raw_file output_path file_size
            ((width, height, block_w, block_h, desc) # rest') w
           = (if spec_candidate_accepted outcome out
              then (Inr True, snd (decode_with_config e raw_file output_file width height
                                     block_w block_h (Some (stem raw_file)) w))
              else brute_force_loop e raw_file output_path file_size rest'
                     (snd (decode_with_config e raw_file output_file width height
                             block_w block_h (Some (stem raw_file)) w))))"
proof -
  note res = decode_with_config_result [OF raw hdr tmp prog]
  have acc: "fst (decode_with_config e raw_file output_file width height block_w block_h k w)
               = spec_candidate_accepted outcome out" for k
    by (rule res(1))
  have 1: "launched (snd (decode_with_config e raw_file output_file width height block_w block_h
                           cache_key w))
           = launched w @ [AstcDecode tmp output_file]"
    by (rule res(3))
  have 2: "\<not> spec_candidate_accepted outcome out \<longrightarrow>
            files (snd (decode_with_config e raw_file output_file width height block_w block_h
                          cache_key w)) output_file = None
          \<and> DECODE_CACHE (snd (decode_with_config e raw_file output_file width height block_w
                                  block_h cache_key w)) = DECODE_CACHE w"
    by (simp add: res(2) res(4))
  have 3: "outcome = TimeoutExpired \<or> outcome = LaunchFailed
            \<or> (\<exists>rc. outcome = Exited rc \<and> rc \<noteq> 0) \<longrightarrow>
            \<not> fst (decode_with_config e raw_file output_file width height block_w block_h
                     cache_key w)"
    using not_accepted_failures [of outcome out] by (simp add: acc)
  have 4: "decode_with_mapping_loop e raw_file output_file width height texture_name
            ((block_w, block_h) # rest) w
           = (if spec_candidate_accepted outcome out
              then (True, snd (decode_with_config e raw_file output_file width height
                                 block_w block_h (Some texture_name) w))
              else decode_with_mapping_loop e raw_file output_file width height texture_name rest
                     (snd (decode_with_config e raw_file output_file width height
                             block_w block_h (Some texture_name) w)))"
    using acc [of "Some texture_name"] by (simp add: split_beta)
  have 5: "calculate_astc_size width height block_w block_h = Inr expected_size
            \<and> \<not> \<bar>expected_size - file_size\<bar> > 100
            \<and> output_file = path_join output_path (stem raw_file @ ''_BF_'' @ desc @ ''.png'') \<longrightarrow>
          brute_force_loop e raw_file output_path file_size
            ((width, height, block_w, block_h, desc) # rest') w
           = (if spec_candidate_accepted outcome out
              then (Inr True, snd (decode_with_config e raw_file output_file width height
                                     block_w block_h (Some (stem raw_file)) w))
              else brute_force_loop e raw_file output_path file_size rest'
                     (snd (decode_with_config e raw_file output_file width height
                             block_w block_h (Some (stem raw_file)) w)))"
    using acc [of "Some (stem raw_file)"] by (auto simp: split_beta Let_def)
  show ?thesis
    using acc [of cache_key] 1 2 3 4 5 by blast
qed

lemma demo_header: "astc_header 256 128 4 4 = Inr [0x13, 0xAB, 0xA1, 0x5C, 4, 4, 1, 0, 1, 0, 128, 0, 0, 1, 0, 0]"
  by (simp add: astc_header_def bind_err_def pack_u32_le_def pack_3B_def dim3_def)

theorem decode_with_config_accepts_iff_witness:
  "files demo_world ''q/foo_d'' = Some [1, 2, 3]
   \<and> astc_header 256 128 4 4 = Inr [0x13, 0xAB, 0xA1, 0x5C, 4, 4, 1, 0, 1, 0, 128, 0, 0, 1, 0, 0]
   \<and> mktemp demo_env (files demo_world) = ''tmp.astc''
   \<and> program demo_env (AstcDecode ''tmp.astc'' ''out/foo_d.png'')
        ((files demo_world)(''tmp.astc'' \<mapsto>
           [0x13, 0xAB, 0xA1, 0x5C, 4, 4, 1, 0, 1, 0, 128, 0, 0, 1, 0, 0] @ [1, 2, 3]))
       = (Exited 0, Some (replicate 1001 0))
   \<and> spec_candidate_accepted (Exited 0) (Some (replicate 1001 0))
   \<and> fst (decode_with_config demo_env ''q/foo_d'' ''out/foo_d.png'' 256 128 4 4
             (Some ''foo_d'') demo_world)
   \<and> launched (snd (decode_with_config demo_env ''q/foo_d'' ''out/foo_d.png'' 256 128 4 4
                      (Some ''foo_d'') demo_world))
       = [AstcDecode ''tmp.astc'' ''out/foo_d.png'']"
  using decode_with_config_accepts_iff
    [of demo_world "''q/foo_d''" "[1, 2, 3]" 256 128 4 4
        "[0x13, 0xAB, 0xA1, 0x5C, 4, 4, 1, 0, 1, 0, 128, 0, 0, 1, 0, 0]"
        demo_env "''tmp.astc''" "''out/foo_d.png''" "Exited 0" "Some (replicate 1001 0)"
        "Some ''foo_d''"]
    demo_header
  by (simp add: demo_env_def demo_world_def spec_candidate_accepted_def)

lemma calculate_astc_size_spec:
  assumes "0 < bw" "0 < bh"
  shows "calculate_astc_size w h bw bh = Inr (spec_expected_size w h bw bh)"
  using assms by (simp add: calculate_astc_size_def spec_expected_size_def Let_def ceil_div_pos)

lemma brute_force_loop_refines:
  assumes "\<forall>(wd, ht, bw, bh, label) \<in> set cs. 0 < bw \<and> 0 < bh"
  shows "brute_force_loop e texture_file output_path file_size cs w
           = (Inr (fst (spec_first_success e texture_file output_path
                          (filter (spec_within_tolerance file_size) cs) w)),
              snd (spec_first_success e texture_file output_path
                     (filter (spec_within_tolerance file_size) cs) w))"
  using assms
proof (induction cs arbitrary: w)
  case Nil
  then show ?case by simp
next
  case (Cons c cs)
  obtain wd ht bw bh label where c: "c = (wd, ht, bw, bh, label)"
    by (cases c) auto
  have pos: "0 < bw" "0 < bh"
    using Cons.prems c by auto
  have rest: "\<forall>(wd, ht, bw, bh, label) \<in> set cs. 0 < bw \<and> 0 < bh"
    using Cons.prems by simp
  note IH = Cons.IH [OF rest]
  have sz: "calculate_astc_size wd ht bw bh = Inr (spec_expected_size wd ht bw bh)"
    using pos by (rule calculate_astc_size_spec)
  show ?case
  proof (cases "spec_within_tolerance file_size c")
    case True
    then have "\<not> \<bar>spec_expected_size wd ht bw bh - file_size\<bar> > 100"
      by (simp add: spec_within_tolerance_def c)
    then show ?thesis
      using True by (simp add: c sz IH Let_def split_beta)
  next
    case False
    then have "\<bar>spec_expected_size wd ht bw bh - file_size\<bar> > 100"
      by (simp add: spec_within_tolerance_def c)
    then show ?thesis
      using False by (simp add: c sz IH)
  qed
qed

lemma configurations_blocks_positive:
  "\<forall>(wd, ht, bw, bh, label) \<in> set configurations. 0 < bw \<and> 0 < bh"
  by (simp add: configurations_def)

lemma decode_with_config_launched:
  "\<exists>l. launched (snd (decode_with_config e raw_file output_file width height block_w block_h
                        cache_key w)) = launched w @ l
       \<and> set l \<subseteq> {AstcDecode (mktemp e (files w)) output_file}"
proof (cases "fst (wrap_raw_astc ((files w)(mktemp e (files w) \<mapsto> [])) raw_file
                     (mktemp e (files w)) width height block_w block_h)")
  case False
  then show ?thesis
    by (simp add: decode_with_config_def named_temporary_file_eq decode_attempt_def split_beta)
next
  case True
  then show ?thesis
    by (auto simp: decode_with_config_def named_temporary_file_eq decode_attempt_def split_beta
          run_hidden_command_def Let_def split: sum.splits option.splits)
qed

lemma spec_first_success_launched:
  "\<exists>l. launched (snd (spec_first_success e texture_file output_path cs w)) = launched w @ l
       \<and> (\<forall>cmd \<in> set l. \<exists>(wd, ht, bw, bh, label) \<in> set cs. \<exists>tmp.
             cmd = AstcDecode tmp
                     (path_join output_path (stem texture_file @ ''_BF_'' @ label @ ''.png'')))"
proof (induction cs arbitrary: w)
  case Nil
  then show ?case by simp
next
  case (Cons c cs)
  define P where "P xs cmd \<longleftrightarrow> (\<exists>(wd, ht, bw, bh, label) \<in> set xs. \<exists>tmp.
             cmd = AstcDecode tmp
                     (path_join output_path (stem texture_file @ ''_BF_'' @ label @ ''.png'')))"
    for xs :: "(int \<times> int \<times> int \<times> int \<times> string) list" and cmd
  obtain wd ht bw bh label where c: "c = (wd, ht, bw, bh, label)"
    by (cases c) auto
  let ?out = "path_join output_path (stem texture_file @ ''_BF_'' @ label @ ''.png'')"
  let ?v = "decode_with_config e texture_file ?out wd ht bw bh (Some (stem texture_file)) w"
  obtain l1 where l1: "launched (snd ?v) = launched w @ l1"
      "set l1 \<subseteq> {AstcDecode (mktemp e (files w)) ?out}"
    using decode_with_config_launched by blast
  have here: "P (c # cs) (AstcDecode tmp ?out)" for tmp
    unfolding P_def c by auto
  have later: "P (c # cs) cmd" if "P cs cmd" for cmd
    using that unfolding P_def by auto
  have p1: "\<forall>cmd \<in> set l1. P (c # cs) cmd"
    using l1(2) here by auto
  show ?case
  proof (cases "fst ?v")
    case True
    then have "snd (spec_first_success e texture_file output_path (c # cs) w) = snd ?v"
      by (simp add: c Let_def)
    then have "launched (snd (spec_first_success e texture_file output_path (c # cs) w))
                 = launched w @ l1"
      using l1(1) by simp
    then show ?thesis
      using p1 unfolding P_def by blast
  next
    case False
    then have eq: "snd (spec_first_success e texture_file output_path (c # cs) w)
                 = snd (spec_first_success e texture_file output_path cs (snd ?v))"
      by (simp add: c Let_def)
    obtain l2 where l2: "launched (snd (spec_first_success e texture_file output_path cs (snd ?v)))
                           = launched (snd ?v) @ l2"
        "\<forall>cmd \<in> set l2. P cs cmd"
      using Cons.IH [of "snd ?v"] unfolding P_def by blast
    have "launched (snd (spec_first_success e texture_file output_path (c # cs) w))
            = launched w @ (l1 @ l2)"
      using eq l1(1) l2(1) by simp
    moreover have "\<forall>cmd \<in> set (l1 @ l2). P (c # cs) cmd"
      using p1 l2(2) later by auto
    ultimately show ?thesis
      unfolding P_def by blast
  qed
qed

text \<open>
  Claim C9. \<open>brute_force_decode\<close> is decode validation, in table order and stopping at
  the first success, of exactly those table entries whose expected size (ceil
  formula) is within 100 bytes of the blob's length; with no such entry nothing
  happens, and every codec launch it makes is for an entry within the tolerance.
\<close>

theorem brute_force_decode_first_success:
  assumes "files w texture_file = Some raw"
  shows "brute_force_decode e texture_file output_path w
           = (Inr (fst (spec_first_success e texture_file output_path
                          (filter (spec_within_tolerance (int (length raw))) configurations) w)),
              snd (spec_first_success e texture_file output_path
                     (filter (spec_within_tolerance (int (length raw))) configurations) w))
       \<and> (filter (spec_within_tolerance (int (length raw))) configurations = [] \<longrightarrow>
            brute_force_decode e texture_file output_path w = (Inr False, w))
       \<and> (\<exists>l. launched (snd (brute_force_decode e texture_file output_path w)) = launched w @ l
             \<and> (\<forall>cmd \<in> set l.
                   \<exists>(wd, ht, bw, bh, label)
                       \<in> set (filter (spec_within_tolerance (int (length raw))) configurations).
                   \<exists>tmp. cmd = AstcDecode tmp
                     (path_join output_path (stem texture_file @ ''_BF_'' @ label @ ''.png''))))"
proof -
  let ?cs = "filter (spec_within_tolerance (int (length raw))) configurations"
  have eq: "brute_force_decode e texture_file output_path w
           = (Inr (fst (spec_first_success e texture_file output_path ?cs w)),
              snd (spec_first_success e texture_file output_path ?cs w))"
    using assms
    by (simp add: brute_force_decode_def getsize_def
          brute_force_loop_refines [OF configurations_blocks_positive])
  have empty: "?cs = [] \<longrightarrow> brute_force_decode e texture_file output_path w = (Inr False, w)"
    by (simp add: eq)
  have "snd (brute_force_decode e texture_file output_path w)
          = snd (spec_first_success e texture_file output_path ?cs w)"
    by (simp add: eq)
  then have log: "\<exists>l. launched (snd (brute_force_decode e texture_file output_path w))
                        = launched w @ l
             \<and> (\<forall>cmd \<in> set l. \<exists>(wd, ht, bw, bh, label) \<in> set ?cs.
                   \<exists>tmp. cmd = AstcDecode tmp
                     (path_join output_path (stem texture_file @ ''_BF_'' @ label @ ''.png'')))"
    using spec_first_success_launched [of e texture_file output_path ?cs w] by simp
  show ?thesis
    using eq empty log by blast
qed

lemma decode_with_config_wrap_fails:
  assumes "astc_header width height block_w block_h = Inl err"
  shows "fst (decode_with_config e raw_file output_file width height block_w block_h cache_key w)
           = False"
    and "files (snd (decode_with_config e raw_file output_file width height block_w block_h
                       cache_key w)) = (files w)(mktemp e (files w) := None)"
    and "DECODE_CACHE (snd (decode_with_config e raw_file output_file width height block_w
                              block_h cache_key w)) = DECODE_CACHE w"
proof -
  have wr: "wrap_raw_astc f raw_file t width height block_w block_h = (False, f)" for f t
    using assms by (simp add: wrap_raw_astc_def bind_err_def)
  show "fst (decode_with_config e raw_file output_file width height block_w block_h cache_key w)
           = False"
    by (simp add: decode_with_config_def named_temporary_file_eq decode_attempt_def wr)
  show "files (snd (decode_with_config e raw_file output_file width height block_w block_h
                       cache_key w)) = (files w)(mktemp e (files w) := None)"
    by (simp add: decode_with_config_def named_temporary_file_eq decode_attempt_def wr)
  show "DECODE_CACHE (snd (decode_with_config e raw_file output_file width height block_w
                              block_h cache_key w)) = DECODE_CACHE w"
    by (simp add: decode_with_config_def named_temporary_file_eq decode_attempt_def wr)
qed

lemma decode_with_config_invariants:
  assumes raw: "files w raw_file = Some raw"
      and tmp: "mktemp e (files w) \<noteq> raw_file" "mktemp e (files w) \<noteq> output_file"
      and ne: "raw_file \<noteq> output_file"
      and key: "key \<noteq> []"
  shows "files (snd (decode_with_config e raw_file output_file width height block_w block_h
                       (Some key) w)) raw_file = Some raw"
    and "fst (decode_with_config e raw_file output_file width height block_w block_h
                (Some key) w) \<Longrightarrow>
         DECODE_CACHE (snd (decode_with_config e raw_file output_file width height block_w
                              block_h (Some key) w)) key
           = Some \<lparr>cfg_width = width, cfg_height = height, cfg_block_w = block_w,
                   cfg_block_h = block_h, cfg_original_size = int (length raw)\<rparr>"
    and "k \<noteq> key \<Longrightarrow>
         DECODE_CACHE (snd (decode_with_config e raw_file output_file width height block_w
                              block_h (Some key) w)) k = DECODE_CACHE w k"
proof -
  let ?r = "decode_with_config e raw_file output_file width height block_w block_h (Some key) w"
  have "files (snd ?r) raw_file = Some raw
      \<and> (fst ?r \<longrightarrow> DECODE_CACHE (snd ?r) key
           = Some \<lparr>cfg_width = width, cfg_height = height, cfg_block_w = block_w,
                   cfg_block_h = block_h, cfg_original_size = int (length raw)\<rparr>)
      \<and> (k \<noteq> key \<longrightarrow> DECODE_CACHE (snd ?r) k = DECODE_CACHE w k)"
  proof (cases "astc_header width height block_w block_h")
    case (Inl err)
    note f = decode_with_config_wrap_fails [OF Inl, of e raw_file output_file "Some key" w]
    show ?thesis
      using raw tmp by (simp add: f)
  next
    case (Inr header)
    obtain outcome out where
      prog: "program e (AstcDecode (mktemp e (files w)) output_file)
               ((files w)(mktemp e (files w) \<mapsto> header @ raw)) = (outcome, out)"
      by (cases "program e (AstcDecode (mktemp e (files w)) output_file)
               ((files w)(mktemp e (files w) \<mapsto> header @ raw))") auto
    note r = decode_with_config_result [OF raw Inr refl tmp prog, of "Some key"]
    show ?thesis
      using raw tmp ne key by (simp add: r)
  qed
  then show "files (snd ?r) raw_file = Some raw"
    and "fst ?r \<Longrightarrow> DECODE_CACHE (snd ?r) key
           = Some \<lparr>cfg_width = width, cfg_height = height, cfg_block_w = block_w,
                   cfg_block_h = block_h, cfg_original_size = int (length raw)\<rparr>"
    and "k \<noteq> key \<Longrightarrow> DECODE_CACHE (snd ?r) k = DECODE_CACHE w k"
    by simp_all
qed

lemma decode_with_mapping_loop_cache:
  assumes "files w texture_file = Some raw"
      and "\<forall>f. mktemp e f \<noteq> texture_file \<and> mktemp e f \<noteq> output_file"
      and "texture_file \<noteq> output_file"
      and "texture_name \<noteq> []"
      and "decode_with_mapping_loop e texture_file output_file pw ph texture_name cands w
             = (True, w')"
  shows "(\<exists>(bw, bh) \<in> set cands.
            DECODE_CACHE w' texture_name
              = Some \<lparr>cfg_width = pw, cfg_height = ph, cfg_block_w = bw, cfg_block_h = bh,
                      cfg_original_size = int (length raw)\<rparr>)
       \<and> (\<forall>k. k \<noteq> texture_name \<longrightarrow> DECODE_CACHE w' k = DECODE_CACHE w k)"
  using assms(1,5)
proof (induction cands arbitrary: w)
  case Nil
  then show ?case by simp
next
  case (Cons c cands)
  obtain bw bh where c: "c = (bw, bh)" by (cases c)
  let ?r = "decode_with_config e texture_file output_file pw ph bw bh (Some texture_name) w"
  have t: "mktemp e (files w) \<noteq> texture_file" "mktemp e (files w) \<noteq> output_file"
    using assms(2) by simp_all
  note inv = decode_with_config_invariants [OF Cons.prems(1) t assms(3) assms(4),
               where width = pw and height = ph and block_w = bw and block_h = bh]
  show ?case
  proof (cases "fst ?r")
    case True
    then have w': "w' = snd ?r"
      using Cons.prems(2) by (simp add: c split_beta)
    have "DECODE_CACHE w' texture_name
              = Some \<lparr>cfg_width = pw, cfg_height = ph, cfg_block_w = bw, cfg_block_h = bh,
                      cfg_original_size = int (length raw)\<rparr>"
      using inv(2) True by (simp add: w')
    moreover have "\<forall>k. k \<noteq> texture_name \<longrightarrow> DECODE_CACHE w' k = DECODE_CACHE w k"
      using inv(3) by (simp add: w')
    ultimately show ?thesis
      by (auto simp: c)
  next
    case False
    then have rest: "decode_with_mapping_loop e texture_file output_file pw ph texture_name
                       cands (snd ?r) = (True, w')"
      using Cons.prems(2) by (simp add: c split_beta)
    have "(\<exists>(bw, bh) \<in> set cands.
            DECODE_CACHE w' texture_name
              = Some \<lparr>cfg_width = pw, cfg_height = ph, cfg_block_w = bw, cfg_block_h = bh,
                      cfg_original_size = int (length raw)\<rparr>)
       \<and> (\<forall>k. k \<noteq> texture_name \<longrightarrow> DECODE_CACHE w' k = DECODE_CACHE (snd ?r) k)"
      using Cons.IH [OF inv(1) rest] .
    then show ?thesis
      using inv(3) by auto
  qed
qed

lemma slice_to_strip:
  assumes "s \<noteq> []"
  shows "slice_to texture_name (- int (length s)) = take (length texture_name - length s) texture_name"
  using assms by (simp add: slice_to_def)

lemma find_by_suffix_hit:
  assumes "find_by_suffix texture_name mapping sufs = Some info" "\<forall>s \<in> set sufs. s \<noteq> []"
  shows "\<exists>suffix \<in> set sufs. endswith texture_name suffix
           \<and> map_of mapping (take (length texture_name - length suffix) texture_name) = Some info"
  using assms
proof (induction sufs)
  case Nil
  then show ?case by simp
next
  case (Cons s sufs)
  have s: "slice_to texture_name (- int (length s))
             = take (length texture_name - length s) texture_name"
    using Cons.prems(2) by (intro slice_to_strip) simp
  show ?case
  proof (cases "endswith texture_name s
                \<and> map_of mapping (take (length texture_name - length s) texture_name) \<noteq> None")
    case True
    then have "map_of mapping (take (length texture_name - length s) texture_name) = Some info"
      using Cons.prems(1) by (auto simp: s Let_def)
    then show ?thesis using True by auto
  next
    case False
    then have "find_by_suffix texture_name mapping sufs = Some info"
      using Cons.prems(1) by (auto simp: s Let_def split: if_splits option.splits)
    then show ?thesis using Cons.IH Cons.prems(2) by auto
  qed
qed

lemma find_texture_info_by_suffix:
  assumes "map_of mapping texture_name = None"
      and "find_texture_info texture_name mapping = Some info"
  shows "\<exists>suffix \<in> set suffixes. endswith texture_name suffix
           \<and> map_of mapping (take (length texture_name - length suffix) texture_name) = Some info"
proof -
  have "find_by_suffix texture_name mapping suffixes = Some info"
    using assms by (simp add: find_texture_info_def)
  moreover have "\<forall>s \<in> set suffixes. s \<noteq> []"
    by (simp add: suffixes_def)
  ultimately show ?thesis
    by (rule find_by_suffix_hit)
qed

lemma endswith_suffix_nonempty:
  assumes "suffix \<in> set suffixes" "endswith texture_name suffix"
  shows "texture_name \<noteq> []"
  using assms by (auto simp: suffixes_def endswith_def)

text \<open>
  Claim C2, as amended. For a texture whose name has no direct mapping entry but
  resolves by suffix stripping, a successful \<open>decode_with_mapping\<close> stores the record
  (the mapping's width and height for the stripped base, the accepted block size, the
  raw blob's byte length) under the texture's full name, and writes no other key.
\<close>

theorem decode_with_mapping_caches_full_name:
  assumes direct: "map_of mapping (stem texture_file) = None"
      and found: "find_texture_info (stem texture_file) mapping = Some info"
      and raw: "files w texture_file = Some raw"
      and tmp: "\<forall>f. mktemp e f \<noteq> texture_file
                  \<and> mktemp e f \<noteq> path_join output_path (stem texture_file @ ''.png'')"
      and ne: "texture_file \<noteq> path_join output_path (stem texture_file @ ''.png'')"
      and ok: "decode_with_mapping e texture_file output_path mapping w = (True, w')"
  shows "(\<exists>suffix \<in> set suffixes. endswith (stem texture_file) suffix
            \<and> map_of mapping (take (length (stem texture_file) - length suffix)
                                 (stem texture_file)) = Some info)
       \<and> (\<exists>(bw, bh) \<in> set get_common_block_sizes.
            DECODE_CACHE w' (stem texture_file)
              = Some \<lparr>cfg_width = tex_width info, cfg_height = tex_height info,
                      cfg_block_w = bw, cfg_block_h = bh,
                      cfg_original_size = int (length raw)\<rparr>)
       \<and> (\<forall>k. k \<noteq> stem texture_file \<longrightarrow> DECODE_CACHE w' k = DECODE_CACHE w k)"
proof -
  have suf: "\<exists>suffix \<in> set suffixes. endswith (stem texture_file) suffix
            \<and> map_of mapping (take (length (stem texture_file) - length suffix)
                                 (stem texture_file)) = Some info"
    using direct found by (rule find_texture_info_by_suffix)
  then have name: "stem texture_file \<noteq> []"
    using endswith_suffix_nonempty by blast
  have loop: "decode_with_mapping_loop e texture_file
                (path_join output_path (stem texture_file @ ''.png''))
                (tex_width info) (tex_height info) (stem texture_file)
                get_common_block_sizes w = (True, w')"
    using ok found by (simp add: decode_with_mapping_def Let_def)
  show ?thesis
    using suf decode_with_mapping_loop_cache [OF raw tmp ne name loop] by blast
qed

theorem decode_with_mapping_base_key_counterexample:
  "map_of demo_mapping (stem ''q/foo_d'') = None
   \<and> find_texture_info (stem ''q/foo_d'') demo_mapping
       = Some \<lparr>tex_width = 256, tex_height = 128\<rparr>
   \<and> fst (decode_with_mapping demo_env ''q/foo_d'' ''out'' demo_mapping demo_world)
   \<and> DECODE_CACHE (snd (decode_with_mapping demo_env ''q/foo_d'' ''out'' demo_mapping
                          demo_world)) ''foo'' = None
   \<and> DECODE_CACHE (snd (decode_with_mapping demo_env ''q/foo_d'' ''out'' demo_mapping
                          demo_world)) ''foo_d''
       = Some \<lparr>cfg_width = 256, cfg_height = 128, cfg_block_w = 4, cfg_block_h = 4,
               cfg_original_size = 3\<rparr>"
  by code_simp

theorem decode_with_mapping_caches_full_name_witness:
  "map_of demo_mapping (stem ''q/foo_d'') = None
   \<and> find_texture_info (stem ''q/foo_d'') demo_mapping
       = Some \<lparr>tex_width = 256, tex_height = 128\<rparr>
   \<and> files demo_world ''q/foo_d'' = Some [1, 2, 3]
   \<and> fst (decode_with_mapping demo_env ''q/foo_d'' ''out'' demo_mapping demo_world)
   \<and> (\<exists>(bw, bh) \<in> set get_common_block_sizes.
        DECODE_CACHE (snd (decode_with_mapping demo_env ''q/foo_d'' ''out'' demo_mapping
                             demo_world)) (stem ''q/foo_d'')
          = Some \<lparr>cfg_width = 256, cfg_height = 128, cfg_block_w = bw, cfg_block_h = bh,
                  cfg_original_size = int (length [1, 2, 3 :: byte])\<rparr>)
   \<and> DECODE_CACHE (snd (decode_with_mapping demo_env ''q/foo_d'' ''out'' demo_mapping
                          demo_world)) ''foo'' = DECODE_CACHE demo_world ''foo''"
proof -
  let ?r = "decode_with_mapping demo_env ''q/foo_d'' ''out'' demo_mapping demo_world"
  have h1: "map_of demo_mapping (stem ''q/foo_d'') = None"
    by code_simp
  have h2: "find_texture_info (stem ''q/foo_d'') demo_mapping
              = Some \<lparr>tex_width = 256, tex_height = 128\<rparr>"
    by code_simp
  have h3: "files demo_world ''q/foo_d'' = Some [1, 2, 3]"
    by (simp add: demo_world_def)
  have st: "stem ''q/foo_d'' = ''foo_d''"
    by code_simp
  have h4: "\<forall>f. mktemp demo_env f \<noteq> ''q/foo_d''
              \<and> mktemp demo_env f \<noteq> path_join ''out'' (stem ''q/foo_d'' @ ''.png'')"
    by (simp add: demo_env_def st path_join_def)
  have h5: "''q/foo_d'' \<noteq> path_join ''out'' (stem ''q/foo_d'' @ ''.png'')"
    by (simp add: st path_join_def)
  have h6: "fst ?r"
    by code_simp
  then have h7: "?r = (True, snd ?r)"
    by (simp add: prod_eq_iff)
  show ?thesis
    using decode_with_mapping_caches_full_name [OF h1 h2 h3 h4 h5 h7] h1 h2 h3 h6
    by (simp add: st)
qed

theorem brute_force_decode_first_success_witness:
  "files (demo_world\<lparr>files := [''q/foo_d'' \<mapsto> replicate 524288 0]\<rparr>) ''q/foo_d''
     = Some (replicate 524288 0)
   \<and> filter (spec_within_tolerance (int (length (replicate 524288 (0 :: byte))))) configurations
       = [(2048, 1024, 8, 8, ''2Kx1K_8x8''), (1024, 512, 4, 4, ''1Kx512_4x4'')]
   \<and> brute_force_decode demo_env ''q/foo_d'' ''out''
        (demo_world\<lparr>files := [''q/foo_d'' \<mapsto> replicate 524288 0]\<rparr>)
       = (Inr (fst (spec_first_success demo_env ''q/foo_d'' ''out''
                      [(2048, 1024, 8, 8, ''2Kx1K_8x8''), (1024, 512, 4, 4, ''1Kx512_4x4'')]
                      (demo_world\<lparr>files := [''q/foo_d'' \<mapsto> replicate 524288 0]\<rparr>))),
          snd (spec_first_success demo_env ''q/foo_d'' ''out''
                      [(2048, 1024, 8, 8, ''2Kx1K_8x8''), (1024, 512, 4, 4, ''1Kx512_4x4'')]
                      (demo_world\<lparr>files := [''q/foo_d'' \<mapsto> replicate 524288 0]\<rparr>)))"
proof -
  let ?w = "demo_world\<lparr>files := [''q/foo_d'' \<mapsto> replicate 524288 0]\<rparr>"
  have h: "files ?w ''q/foo_d'' = Some (replicate 524288 0)"
    by simp
  have f: "filter (spec_within_tolerance (int (length (replicate 524288 (0 :: byte)))))
             configurations
       = [(2048, 1024, 8, 8, ''2Kx1K_8x8''), (1024, 512, 4, 4, ''1Kx512_4x4'')]"
    by (simp add: configurations_def spec_within_tolerance_def spec_expected_size_def)
  show ?thesis
    using brute_force_decode_first_success [OF h, of demo_env "''out''"] h f
    by simp
qed

section \<open>The replacement engine\<close>

lemma quest_stage_raises:
  "quest_stage output_folder input_textures_folder input_corresponding_folder texture_name
     temp_output f = (Inl (NameError ''dest_textures_folder''), f)"
  by (simp add: quest_stage_def unbound_name_def)

lemma replace_quest_body_no_success:
  "fst (replace_quest_body e output_folder quest_input_folder original_texture_path
          replacement_texture_path w) \<noteq> Inr (True, m)"
  by (auto simp: replace_quest_body_def Let_def quest_stage_raises split_beta
           split: sum.splits)

text \<open>
  Claim C1. The claim asks for a success result after the staging copies and the
  descriptor patch. The code never gets there: once the encode step has succeeded,
  the next statement reads the unbound name \<open>dest_textures_folder\<close>, and the handler
  turns the \<open>NameError\<close> into a failure result. So no call returns success; and in the
  example (mapping hit for \<open>foo\<close>, encode succeeded, encoded payload of the original's
  three bytes left in the temporary directory) nothing is staged and the descriptor
  is not patched.
\<close>

theorem replace_quest_texture_never_succeeds:
  "\<not> fst (fst (replace_quest_texture e output_folder quest_input_folder original_texture_path
                 replacement_texture_path w))
   \<and> fst (quest_encode demo_env ''new.png'' ''/tmp/encoded_foo'' ''foo'' 3
            (demo_world\<lparr>files := [''q/foo'' \<mapsto> [1, 2, 3], ''new.png'' \<mapsto> [9],
                                   ''out/e2ef0854d0cd69b8/foo'' \<mapsto> replicate 248 0]\<rparr>))
   \<and> fst (replace_quest_texture demo_env ''out'' ''in'' ''q/foo'' ''new.png''
            (demo_world\<lparr>files := [''q/foo'' \<mapsto> [1, 2, 3], ''new.png'' \<mapsto> [9],
                                   ''out/e2ef0854d0cd69b8/foo'' \<mapsto> replicate 248 0]\<rparr>))
       = (False, ErrorText ''Quest replacement error: '' (NameError ''dest_textures_folder''))
   \<and> files (snd (replace_quest_texture demo_env ''out'' ''in'' ''q/foo'' ''new.png''
            (demo_world\<lparr>files := [''q/foo'' \<mapsto> [1, 2, 3], ''new.png'' \<mapsto> [9],
                                   ''out/e2ef0854d0cd69b8/foo'' \<mapsto> replicate 248 0]\<rparr>)))
         ''/tmp/encoded_foo'' = Some [0, 0, 0]
   \<and> files (snd (replace_quest_texture demo_env ''out'' ''in'' ''q/foo'' ''new.png''
            (demo_world\<lparr>files := [''q/foo'' \<mapsto> [1, 2, 3], ''new.png'' \<mapsto> [9],
                                   ''out/e2ef0854d0cd69b8/foo'' \<mapsto> replicate 248 0]\<rparr>)))
         ''in/489b7b69cb19e0e9/foo'' = None
   \<and> files (snd (replace_quest_texture demo_env ''out'' ''in'' ''q/foo'' ''new.png''
            (demo_world\<lparr>files := [''q/foo'' \<mapsto> [1, 2, 3], ''new.png'' \<mapsto> [9],
                                   ''out/e2ef0854d0cd69b8/foo'' \<mapsto> replicate 248 0]\<rparr>)))
         ''in/e2ef0854d0cd69b8/foo'' = None"
proof -
  have general: "\<not> fst (fst (replace_quest_texture e output_folder quest_input_folder
                                original_texture_path replacement_texture_path w))"
  proof -
    obtain res w' where b: "replace_quest_body e output_folder quest_input_folder
                              original_texture_path replacement_texture_path w = (res, w')"
      by (cases "replace_quest_body e output_folder quest_input_folder
                              original_texture_path replacement_texture_path w") auto
    have "res \<noteq> Inr (True, m)" for m
      using replace_quest_body_no_success
        [of e output_folder quest_input_folder original_texture_path replacement_texture_path w m]
        b by simp
    note no = this
    show ?thesis
    proof (cases res)
      case (Inl err)
      then show ?thesis by (simp add: replace_quest_texture_def b)
    next
      case (Inr r)
      obtain ok m where r: "r = (ok, m)" by (cases r)
      have "\<not> ok" using no [of m] Inr r by auto
      then show ?thesis by (simp add: replace_quest_texture_def b Inr r)
    qed
  qed
  let ?w = "demo_world\<lparr>files := [''q/foo'' \<mapsto> [1, 2, 3], ''new.png'' \<mapsto> [9],
                                   ''out/e2ef0854d0cd69b8/foo'' \<mapsto> replicate 248 0]\<rparr>"
  have 1: "fst (quest_encode demo_env ''new.png'' ''/tmp/encoded_foo'' ''foo'' 3 ?w)"
    by code_simp
  have 2: "fst (replace_quest_texture demo_env ''out'' ''in'' ''q/foo'' ''new.png'' ?w)
       = (False, ErrorText ''Quest replacement error: '' (NameError ''dest_textures_folder''))"
    by code_simp
  have 3: "files (snd (replace_quest_texture demo_env ''out'' ''in'' ''q/foo'' ''new.png'' ?w))
         ''/tmp/encoded_foo'' = Some [0, 0, 0]"
    by code_simp
  have 4: "files (snd (replace_quest_texture demo_env ''out'' ''in'' ''q/foo'' ''new.png'' ?w))
         ''in/489b7b69cb19e0e9/foo'' = None"
    by code_simp
  have 5: "files (snd (replace_quest_texture demo_env ''out'' ''in'' ''q/foo'' ''new.png'' ?w))
         ''in/e2ef0854d0cd69b8/foo'' = None"
    by code_simp
  show ?thesis
    using general 1 2 3 4 5 by blast
qed

lemma endswith_lower:
  assumes "endswith s suffix"
  shows "endswith (lower s) (lower suffix)"
  using assms by (auto simp: endswith_def lower_def drop_map)

lemma endswith_lower_dds:
  assumes "endswith s ''.dds''"
  shows "endswith (lower s) ''.dds''"
proof -
  have "lower ''.dds'' = ''.dds''"
    by code_simp
  then show ?thesis
    using endswith_lower [OF assms] by simp
qed

lemma basename_no_slash: "CHR ''/'' \<notin> set (basename p)"
proof
  assume "CHR ''/'' \<in> set (basename p)"
  then have "CHR ''/'' \<in> set (takeWhile (\<lambda>c. c \<noteq> CHR ''/'') (rev p))"
    by (simp add: basename_def)
  then show False
    using set_takeWhileD by fastforce
qed

lemma path_join_name:
  assumes "folder \<noteq> []" "last folder \<noteq> CHR ''/''" "CHR ''/'' \<notin> set name"
  shows "path_join folder name = folder @ ''/'' @ name"
proof -
  have "\<not> (name \<noteq> [] \<and> hd name = CHR ''/'')"
    using assms(3) by (cases name) auto
  then show ?thesis
    using assms(1,2) by (simp add: path_join_def)
qed

lemma path_join_folder:
  assumes "sub \<noteq> []" "hd sub \<noteq> CHR ''/''"
  shows "path_join base sub = (if base = [] \<or> last base = CHR ''/'' then base else base @ ''/'') @ sub"
  using assms by (simp add: path_join_def)

lemma staging_paths_differ:
  "path_join (path_join pcvr_input_folder ''beac1969cb7b8861'') (basename p)
     \<noteq> path_join (path_join pcvr_input_folder ''4a4c32c49300b8a0'') (basename p)"
proof -
  define pre where "pre = (if pcvr_input_folder = [] \<or> last pcvr_input_folder = CHR ''/''
                           then pcvr_input_folder else pcvr_input_folder @ ''/'')"
  have f1: "path_join pcvr_input_folder ''beac1969cb7b8861'' = pre @ ''beac1969cb7b8861''"
    unfolding pre_def by (rule path_join_folder) simp_all
  have f2: "path_join pcvr_input_folder ''4a4c32c49300b8a0'' = pre @ ''4a4c32c49300b8a0''"
    unfolding pre_def by (rule path_join_folder) simp_all
  have j1: "path_join (pre @ ''beac1969cb7b8861'') (basename p)
              = (pre @ ''beac1969cb7b8861'') @ ''/'' @ basename p"
    by (rule path_join_name) (simp_all add: basename_no_slash)
  have j2: "path_join (pre @ ''4a4c32c49300b8a0'') (basename p)
              = (pre @ ''4a4c32c49300b8a0'') @ ''/'' @ basename p"
    by (rule path_join_name) (simp_all add: basename_no_slash)
  show ?thesis
    by (simp add: f1 f2 j1 j2)
qed

lemma patched_descriptor:
  assumes "248 \<le> length desc" "0 \<le> n" "n < 4294967296"
  defines "le \<equiv> [word_of_int (n mod 256), word_of_int (n div 256 mod 256),
                   word_of_int (n div 65536 mod 256), word_of_int (n div 16777216)] :: bytes"
  shows "length (take 244 desc @ le @ drop 248 desc) = length desc"
    and "le32_at (take 244 desc @ le @ drop 248 desc) 244 = n"
    and "i < length desc \<Longrightarrow> i < 244 \<or> 248 \<le> i \<Longrightarrow>
           (take 244 desc @ le @ drop 248 desc) ! i = desc ! i"
proof -
  show "length (take 244 desc @ le @ drop 248 desc) = length desc"
    using assms(1) unfolding le_def by (simp | arith)+
  show "le32_at (take 244 desc @ le @ drop 248 desc) 244 = n"
    using assms(1-3) unfolding le_def by (intro le32_at_packed) simp_all
  show "(take 244 desc @ le @ drop 248 desc) ! i = desc ! i"
    if "i < length desc" "i < 244 \<or> 248 \<le> i"
  proof (cases "i < 244")
    case True
    then show ?thesis using assms(1) by (simp add: nth_append)
  next
    case False
    then have "248 \<le> i" using that by simp
    then obtain k where k: "i = 248 + k" using le_Suc_ex by blast
    have "(take 244 desc @ le @ drop 248 desc) ! i = (le @ drop 248 desc) ! (4 + k)"
      using assms(1) k by (simp add: nth_append)
    also have "\<dots> = drop 248 desc ! k"
      unfolding le_def by (simp add: nth_append)
    also have "\<dots> = desc ! i"
      using assms(1) k that by simp
    finally show ?thesis .
  qed
qed

lemma hex_edit_file_size_ok:
  assumes "f p = Some desc" "248 \<le> length desc" "0 \<le> n" "n < 4294967296"
  shows "hex_edit_file_size f p n
           = (True, f(p \<mapsto> take 244 desc
                @ [word_of_int (n mod 256), word_of_int (n div 256 mod 256),
                   word_of_int (n div 65536 mod 256), word_of_int (n div 16777216)]
                @ drop 248 desc))"
  using assms by (simp add: hex_edit_file_size_def read_bytes_def pack_u32_le_def)

lemma pcvr_stage_keeps_texture:
  assumes "f replacement = Some data"
      and "replacement \<noteq> path_join (path_join pcvr_input_folder ''beac1969cb7b8861'')
                            (basename original)"
  shows "snd (pcvr_stage output_folder pcvr_input_folder original replacement replacement n f)
           (path_join (path_join pcvr_input_folder ''beac1969cb7b8861'') (basename original))
         = Some data"
proof -
  let ?itp = "path_join (path_join pcvr_input_folder ''beac1969cb7b8861'') (basename original)"
  let ?icp = "path_join (path_join pcvr_input_folder ''4a4c32c49300b8a0'') (basename original)"
  have ne: "?itp \<noteq> ?icp"
    by (rule staging_paths_differ)
  have other: "snd (hex_edit_file_size g ?icp n) ?itp = g ?itp" for g
    using ne by (auto simp: hex_edit_file_size_def read_bytes_def split: sum.splits option.splits)
  show ?thesis
    using assms ne
    by (auto simp: pcvr_stage_def Let_def copy2_def exists_def other split_beta
             split: option.splits)
qed

lemma pcvr_stage_patches:
  assumes "f replacement = Some data"
      and "replacement \<noteq> path_join (path_join pcvr_input_folder ''beac1969cb7b8861'')
                            (basename original)"
      and "f (path_join (path_join output_folder ''4a4c32c49300b8a0'') (basename original))
             = Some desc"
      and "path_join (path_join output_folder ''4a4c32c49300b8a0'') (basename original)
             \<noteq> path_join (path_join pcvr_input_folder ''beac1969cb7b8861'') (basename original)"
      and "path_join (path_join output_folder ''4a4c32c49300b8a0'') (basename original)
             \<noteq> path_join (path_join pcvr_input_folder ''4a4c32c49300b8a0'') (basename original)"
      and "248 \<le> length desc" "0 \<le> n" "n < 4294967296"
  shows "pcvr_stage output_folder pcvr_input_folder original replacement replacement n f
           = (Inr (True, Text (''PCVR texture replaced. Size updated to '' @ str_int n
                                @ '' bytes.'')),
              f(path_join (path_join pcvr_input_folder ''beac1969cb7b8861'') (basename original)
                  \<mapsto> data,
                path_join (path_join pcvr_input_folder ''4a4c32c49300b8a0'') (basename original)
                  \<mapsto> take 244 desc
                      @ [word_of_int (n mod 256), word_of_int (n div 256 mod 256),
                         word_of_int (n div 65536 mod 256), word_of_int (n div 16777216)]
                      @ drop 248 desc))"
proof -
  let ?itp = "path_join (path_join pcvr_input_folder ''beac1969cb7b8861'') (basename original)"
  let ?icp = "path_join (path_join pcvr_input_folder ''4a4c32c49300b8a0'') (basename original)"
  let ?ocf = "path_join (path_join output_folder ''4a4c32c49300b8a0'') (basename original)"
  have c1: "copy2 f replacement ?itp = Inr (f(?itp \<mapsto> data))"
    using assms(1,2) by (simp add: copy2_def)
  have ex: "exists (f(?itp \<mapsto> data)) ?ocf"
    using assms(3,4) by (simp add: exists_def)
  have c2: "copy2 (f(?itp \<mapsto> data)) ?ocf ?icp = Inr (f(?itp \<mapsto> data, ?icp \<mapsto> desc))"
    using assms(3,4,5) by (simp add: copy2_def)
  have "(f(?itp \<mapsto> data, ?icp \<mapsto> desc)) ?icp = Some desc"
    by simp
  then have h: "hex_edit_file_size (f(?itp \<mapsto> data, ?icp \<mapsto> desc)) ?icp n
           = (True, (f(?itp \<mapsto> data, ?icp \<mapsto> desc))(?icp \<mapsto> take 244 desc
                @ [word_of_int (n mod 256), word_of_int (n div 256 mod 256),
                   word_of_int (n div 65536 mod 256), word_of_int (n div 16777216)]
                @ drop 248 desc))"
    using assms(6,7,8) by (rule hex_edit_file_size_ok)
  show ?thesis
    by (simp add: pcvr_stage_def Let_def c1 ex c2 h)
qed

lemma replace_pcvr_body_unparsed:
  assumes orig: "get_dds_info (files w) original = Some orig_info"
      and ext: "endswith replacement ''.dds''"
      and is_file: "files w replacement = Some data"
      and unparsed: "get_dds_info (files w) replacement = None"
      and size: "replacement_size = None \<or> replacement_size = Some (int (length data))"
  shows "replace_pcvr_body e output_folder pcvr_input_folder original replacement
           replacement_size w
         = (fst (pcvr_stage output_folder pcvr_input_folder original replacement replacement
                   (int (length data)) (files w)),
            w\<lparr>files := snd (pcvr_stage output_folder pcvr_input_folder original replacement
                               replacement (int (length data)) (files w))\<rparr>)"
proof -
  have low: "endswith (lower replacement) ''.dds''"
    using ext by (rule endswith_lower_dds)
  have ex: "exists (files w) replacement"
    using is_file by (simp add: exists_def)
  have sz: "(case replacement_size of
               None \<Rightarrow> getsize (files w) replacement
             | Some given \<Rightarrow> Inr given) = Inr (int (length data))"
    using size is_file by (auto simp: getsize_def)
  show ?thesis
    by (simp add: replace_pcvr_body_def orig low ex unparsed sz Let_def split_beta)
qed

text \<open>
  Claim C10. When the original's header parses, the replacement's name ends in
  \<open>.dds\<close>, the file exists, and \<open>get_dds_info\<close> returns \<open>None\<close> for it, then
  \<open>replace_pcvr_texture\<close> launches no program, stages the replacement's own bytes as
  the texture whatever the original's dimensions are, and (with no other size passed
  by the caller) patches a descriptor of at least 248 bytes with the replacement
  file's byte length.
\<close>

theorem replace_pcvr_texture_unparsed_dds:
  assumes orig: "get_dds_info (files w) original_texture_path = Some orig_info"
      and ext: "endswith replacement_texture_path ''.dds''"
      and is_file: "files w replacement_texture_path = Some data"
      and unparsed: "get_dds_info (files w) replacement_texture_path = None"
      and size: "replacement_size = None \<or> replacement_size = Some (int (length data))"
      and itp: "input_texture_path
                  = path_join (path_join pcvr_input_folder ''beac1969cb7b8861'')
                      (basename original_texture_path)"
      and icp: "input_corresponding_path
                  = path_join (path_join pcvr_input_folder ''4a4c32c49300b8a0'')
                      (basename original_texture_path)"
      and ocf: "output_corresponding_file
                  = path_join (path_join output_folder ''4a4c32c49300b8a0'')
                      (basename original_texture_path)"
      and apart: "replacement_texture_path \<noteq> input_texture_path"
  shows "launched (snd (replace_pcvr_texture e output_folder pcvr_input_folder
                          original_texture_path replacement_texture_path replacement_size w))
           = launched w
       \<and> files (snd (replace_pcvr_texture e output_folder pcvr_input_folder
                        original_texture_path replacement_texture_path replacement_size w))
           input_texture_path = Some data
       \<and> (\<forall>desc. files w output_corresponding_file = Some desc
                \<and> output_corresponding_file \<noteq> input_texture_path
                \<and> output_corresponding_file \<noteq> input_corresponding_path
                \<and> 248 \<le> length desc \<and> int (length data) < 4294967296 \<longrightarrow>
            fst (replace_pcvr_texture e output_folder pcvr_input_folder
                   original_texture_path replacement_texture_path replacement_size w)
              = (True, Text (''PCVR texture replaced. Size updated to ''
                              @ str_int (int (length data)) @ '' bytes.''))
          \<and> (\<exists>desc'. files (snd (replace_pcvr_texture e output_folder pcvr_input_folder
                                     original_texture_path replacement_texture_path
                                     replacement_size w))
                         input_corresponding_path = Some desc'
                \<and> length desc' = length desc
                \<and> le32_at desc' 244 = int (length data)
                \<and> (\<forall>i < length desc. i < 244 \<or> 248 \<le> i \<longrightarrow> desc' ! i = desc ! i)))"
proof -
  let ?stage = "pcvr_stage output_folder pcvr_input_folder original_texture_path
                  replacement_texture_path replacement_texture_path (int (length data)) (files w)"
  let ?R = "replace_pcvr_texture e output_folder pcvr_input_folder
              original_texture_path replacement_texture_path replacement_size w"
  note body = replace_pcvr_body_unparsed [OF orig ext is_file unparsed size,
                of e output_folder pcvr_input_folder]
  have world: "snd ?R = w\<lparr>files := snd ?stage\<rparr>"
    by (cases "fst ?stage") (simp_all add: replace_pcvr_texture_def body)
  have res: "fst ?stage = Inr r \<Longrightarrow> fst ?R = r" for r
    by (simp add: replace_pcvr_texture_def body)
  have 1: "launched (snd ?R) = launched w"
    by (simp add: world)
  have apart': "replacement_texture_path
                  \<noteq> path_join (path_join pcvr_input_folder ''beac1969cb7b8861'')
                      (basename original_texture_path)"
    using apart itp by simp
  have "snd ?stage (path_join (path_join pcvr_input_folder ''beac1969cb7b8861'')
                      (basename original_texture_path)) = Some data"
    using is_file apart' by (rule pcvr_stage_keeps_texture)
  then have 2: "files (snd ?R) input_texture_path = Some data"
    by (simp add: world itp)
  have 3: "fst ?R = (True, Text (''PCVR texture replaced. Size updated to ''
                              @ str_int (int (length data)) @ '' bytes.''))
          \<and> (\<exists>desc'. files (snd ?R) input_corresponding_path = Some desc'
                \<and> length desc' = length desc
                \<and> le32_at desc' 244 = int (length data)
                \<and> (\<forall>i < length desc. i < 244 \<or> 248 \<le> i \<longrightarrow> desc' ! i = desc ! i))"
    if d: "files w output_corresponding_file = Some desc"
          "output_corresponding_file \<noteq> input_texture_path"
          "output_corresponding_file \<noteq> input_corresponding_path"
          "248 \<le> length desc" "int (length data) < 4294967296"
    for desc
  proof -
    let ?n = "int (length data)"
    let ?p = "take 244 desc
                @ [word_of_int (?n mod 256), word_of_int (?n div 256 mod 256),
                   word_of_int (?n div 65536 mod 256), word_of_int (?n div 16777216)]
                @ drop 248 desc"
    have n0: "0 \<le> ?n" by simp
    have d1: "files w (path_join (path_join output_folder ''4a4c32c49300b8a0'')
                         (basename original_texture_path)) = Some desc"
      using d(1) ocf by simp
    have d2: "path_join (path_join output_folder ''4a4c32c49300b8a0'')
                (basename original_texture_path)
              \<noteq> path_join (path_join pcvr_input_folder ''beac1969cb7b8861'')
                  (basename original_texture_path)"
      using d(2) ocf itp by simp
    have d3: "path_join (path_join output_folder ''4a4c32c49300b8a0'')
                (basename original_texture_path)
              \<noteq> path_join (path_join pcvr_input_folder ''4a4c32c49300b8a0'')
                  (basename original_texture_path)"
      using d(3) ocf icp by simp
    have "?stage = (Inr (True, Text (''PCVR texture replaced. Size updated to ''
                                          @ str_int ?n @ '' bytes.'')),
                    (files w)
                      (path_join (path_join pcvr_input_folder ''beac1969cb7b8861'')
                         (basename original_texture_path) \<mapsto> data,
                       path_join (path_join pcvr_input_folder ''4a4c32c49300b8a0'')
                         (basename original_texture_path) \<mapsto> ?p))"
      using is_file apart' d1 d2 d3 d(4) n0 d(5) by (rule pcvr_stage_patches)
    then have st: "?stage = (Inr (True, Text (''PCVR texture replaced. Size updated to ''
                                          @ str_int ?n @ '' bytes.'')),
                        (files w)(input_texture_path \<mapsto> data, input_corresponding_path \<mapsto> ?p))"
      by (simp add: itp icp)
    have a: "fst ?R = (True, Text (''PCVR texture replaced. Size updated to ''
                              @ str_int ?n @ '' bytes.''))"
      using res st by simp
    have b: "files (snd ?R) input_corresponding_path = Some ?p"
      by (simp add: world st)
    note p = patched_descriptor [OF d(4) n0 d(5)]
    show ?thesis
      using a b p by blast
  qed
  show ?thesis
    using 1 2 3 by blast
qed

theorem replace_pcvr_texture_unparsed_dds_witness:
  "get_dds_info
     (files (demo_world\<lparr>files := [''p/tex'' \<mapsto> ascii ''DDS '' @ replicate 124 0,
                                    ''new.dds'' \<mapsto> [9, 9, 9],
                                    ''out/4a4c32c49300b8a0/tex'' \<mapsto> replicate 250 1]\<rparr>))
     ''p/tex''
     = Some \<lparr>dds_width = 0, dds_height = 0, mipmaps = 0, format = ''Unknown'',
             dds_file_size = 128, format_code = None, is_problematic = False\<rparr>
   \<and> endswith ''new.dds'' ''.dds''
   \<and> get_dds_info
       (files (demo_world\<lparr>files := [''p/tex'' \<mapsto> ascii ''DDS '' @ replicate 124 0,
                                      ''new.dds'' \<mapsto> [9, 9, 9],
                                      ''out/4a4c32c49300b8a0/tex'' \<mapsto> replicate 250 1]\<rparr>))
       ''new.dds'' = None
   \<and> launched (snd (replace_pcvr_texture demo_env ''out'' ''in'' ''p/tex'' ''new.dds'' None
         (demo_world\<lparr>files := [''p/tex'' \<mapsto> ascii ''DDS '' @ replicate 124 0,
                                ''new.dds'' \<mapsto> [9, 9, 9],
                                ''out/4a4c32c49300b8a0/tex'' \<mapsto> replicate 250 1]\<rparr>))) = []
   \<and> files (snd (replace_pcvr_texture demo_env ''out'' ''in'' ''p/tex'' ''new.dds'' None
         (demo_world\<lparr>files := [''p/tex'' \<mapsto> ascii ''DDS '' @ replicate 124 0,
                                ''new.dds'' \<mapsto> [9, 9, 9],
                                ''out/4a4c32c49300b8a0/tex'' \<mapsto> replicate 250 1]\<rparr>)))
       ''in/beac1969cb7b8861/tex'' = Some [9, 9, 9]
   \<and> fst (replace_pcvr_texture demo_env ''out'' ''in'' ''p/tex'' ''new.dds'' None
         (demo_world\<lparr>files := [''p/tex'' \<mapsto> ascii ''DDS '' @ replicate 124 0,
                                ''new.dds'' \<mapsto> [9, 9, 9],
                                ''out/4a4c32c49300b8a0/tex'' \<mapsto> replicate 250 1]\<rparr>))
       = (True, Text ''PCVR texture replaced. Size updated to 3 bytes.'')
   \<and> (\<exists>desc'. files (snd (replace_pcvr_texture demo_env ''out'' ''in'' ''p/tex'' ''new.dds'' None
         (demo_world\<lparr>files := [''p/tex'' \<mapsto> ascii ''DDS '' @ replicate 124 0,
                                ''new.dds'' \<mapsto> [9, 9, 9],
                                ''out/4a4c32c49300b8a0/tex'' \<mapsto> replicate 250 1]\<rparr>)))
                  ''in/4a4c32c49300b8a0/tex'' = Some desc'
         \<and> length desc' = 250 \<and> le32_at desc' 244 = 3)"
proof -
  let ?w = "demo_world\<lparr>files := [''p/tex'' \<mapsto> ascii ''DDS '' @ replicate 124 0,
                                 ''new.dds'' \<mapsto> [9, 9, 9],
                                 ''out/4a4c32c49300b8a0/tex'' \<mapsto> replicate 250 1]\<rparr>"
  let ?R = "replace_pcvr_texture demo_env ''out'' ''in'' ''p/tex'' ''new.dds'' None ?w"
  have h1: "get_dds_info (files ?w) ''p/tex''
     = Some \<lparr>dds_width = 0, dds_height = 0, mipmaps = 0, format = ''Unknown'',
             dds_file_size = 128, format_code = None, is_problematic = False\<rparr>"
    by code_simp
  have h2: "endswith ''new.dds'' ''.dds''"
    by code_simp
  have h3: "files ?w ''new.dds'' = Some [9, 9, 9]"
    by simp
  have h4: "get_dds_info (files ?w) ''new.dds'' = None"
    by code_simp
  have h5: "(None :: int option) = None \<or> None = Some (int (length [9, 9, 9 :: byte]))"
    by simp
  have p1: "''in/beac1969cb7b8861/tex''
              = path_join (path_join ''in'' ''beac1969cb7b8861'') (basename ''p/tex'')"
    by code_simp
  have p2: "''in/4a4c32c49300b8a0/tex''
              = path_join (path_join ''in'' ''4a4c32c49300b8a0'') (basename ''p/tex'')"
    by code_simp
  have p3: "''out/4a4c32c49300b8a0/tex''
              = path_join (path_join ''out'' ''4a4c32c49300b8a0'') (basename ''p/tex'')"
    by code_simp
  have h9: "''new.dds'' \<noteq> ''in/beac1969cb7b8861/tex''"
    by simp
  have d: "files ?w ''out/4a4c32c49300b8a0/tex'' = Some (replicate 250 1)
           \<and> ''out/4a4c32c49300b8a0/tex'' \<noteq> ''in/beac1969cb7b8861/tex''
           \<and> ''out/4a4c32c49300b8a0/tex'' \<noteq> ''in/4a4c32c49300b8a0/tex''
           \<and> 248 \<le> length (replicate 250 (1 :: byte))
           \<and> int (length [9, 9, 9 :: byte]) < 4294967296"
    by simp
  have s: "''PCVR texture replaced. Size updated to '' @ str_int (int (length [9, 9, 9 :: byte]))
             @ '' bytes.'' = ''PCVR texture replaced. Size updated to 3 bytes.''"
    by code_simp
  note T = replace_pcvr_texture_unparsed_dds [OF h1 h2 h3 h4 h5 p1 p2 p3 h9, of demo_env]
  have a: "launched (snd ?R) = []"
    using T [THEN conjunct1] by (simp add: demo_world_def)
  have b: "files (snd ?R) ''in/beac1969cb7b8861/tex'' = Some [9, 9, 9]"
    by (rule T [THEN conjunct2, THEN conjunct1])
  have c: "fst ?R = (True, Text (''PCVR texture replaced. Size updated to ''
                              @ str_int (int (length [9, 9, 9 :: byte])) @ '' bytes.''))
          \<and> (\<exists>desc'. files (snd ?R) ''in/4a4c32c49300b8a0/tex'' = Some desc'
                \<and> length desc' = length (replicate 250 (1 :: byte))
                \<and> le32_at desc' 244 = int (length [9, 9, 9 :: byte])
                \<and> (\<forall>i < length (replicate 250 (1 :: byte)). i < 244 \<or> 248 \<le> i \<longrightarrow>
                      desc' ! i = replicate 250 (1 :: byte) ! i))"
    by (rule T [THEN conjunct2, THEN conjunct2, THEN spec, THEN mp, OF d])
  have c1: "fst ?R = (True, Text ''PCVR texture replaced. Size updated to 3 bytes.'')"
    using c [THEN conjunct1] s by (simp only:)
  obtain desc' where dd: "files (snd ?R) ''in/4a4c32c49300b8a0/tex'' = Some desc'"
      "length desc' = length (replicate 250 (1 :: byte))"
      "le32_at desc' 244 = int (length [9, 9, 9 :: byte])"
    using c [THEN conjunct2] by blast
  have "length desc' = 250" "le32_at desc' 244 = 3"
    using dd(2,3) by simp_all
  then have c2: "\<exists>desc'. files (snd ?R) ''in/4a4c32c49300b8a0/tex'' = Some desc'
         \<and> length desc' = 250 \<and> le32_at desc' 244 = 3"
    using dd(1) by blast
  show ?thesis
    using h1 h2 h4 a b c1 c2 by blast
qed

end
